theory Spec2Isabelle
  imports Main "HOL-Library.Multiset"
begin

section \<open>The chat-relay bridge of index.js\<close>

text \<open>
  The repository holds two programs. The primary one serves \<^verbatim>\<open>POST /webhook\<close>
  for the Lark platform and keeps its state in two MongoDB collections, \<^verbatim>\<open>Msg\<close>
  (conversation turns) and \<^verbatim>\<open>Event\<close> (event ids already seen). The secondary one
  serves \<^verbatim>\<open>POST /teams-webhook\<close> and keeps no state.

  Conventions of the embedding.
  \<^item> A JavaScript string is a \<open>string\<close>; one \<open>char\<close> stands for one UTF-16 code unit,
    so \<open>length\<close> is the JavaScript \<^verbatim>\<open>.length\<close>.
  \<^item> A collection is the list of its documents in insertion order.
  \<^item> \<^verbatim>\<open>Date.now()\<close>, the answer of \<^verbatim>\<open>fetch\<close> and the failures of the two
    \<^verbatim>\<open>Event\<close> saves come from the environment and are parameters. The reads and
    writes of \<^verbatim>\<open>Msg\<close> and \<^verbatim>\<open>Event.findOne\<close> are taken to succeed.
  \<^item> An exception is the \<open>Inl\<close> of a sum; what a handler did before it threw (documents
    written, calls made) stays in the state it returns.
\<close>

subsection \<open>Errors\<close>

text \<open>
  \<open>JsError m\<close> is \<^verbatim>\<open>new Error(m)\<close>; \<open>MongoError c\<close> is a storage error whose
  \<^verbatim>\<open>code\<close> property is \<open>c\<close> (11000 is the duplicate-key error of a unique index);
  \<open>FetchError\<close> is a rejected \<^verbatim>\<open>fetch\<close>; \<open>SyntaxError\<close> is a body that
  \<^verbatim>\<open>JSON.parse\<close> or \<^verbatim>\<open>response.json()\<close> rejects; \<open>TypeError\<close> is a property read
  of \<^verbatim>\<open>undefined\<close> or \<^verbatim>\<open>null\<close>, or a call of something that is no function.
\<close>

datatype error =
    JsError string
  | MongoError nat
  | FetchError
  | SyntaxError
  | TypeError

fun error_code :: "error \<Rightarrow> nat option" where
  "error_code (MongoError c) = Some c"
| "error_code _ = None"

subsection \<open>The two collections\<close>

text \<open>
  \<^verbatim>\<open>msgSchema\<close>: \<open>msg_id\<close> is the document's \<^verbatim>\<open>_id\<close>. \<open>msgSize\<close> is a \<open>nat\<close>: its only
  writer, \<^verbatim>\<open>saveConversation\<close>, stores the sum of two string lengths.
  \<^verbatim>\<open>eventSchema\<close>: \<open>event_id\<close> carries the unique index.
\<close>

record msg =
  msg_id :: nat
  sessionId :: string
  question :: string
  answer :: string
  msgSize :: nat
  createdAt :: int

record event =
  event_id :: string
  ev_content :: "string option"

record store =
  msgs :: "msg list"
  events :: "event list"
  next_id :: nat

definition empty_store :: store where
  "empty_store = \<lparr>msgs = [], events = [], next_id = 0\<rparr>"

text \<open>
  \<^verbatim>\<open>new Msg({sessionId, question, answer, msgSize}).save()\<close>: the document gets a fresh
  \<^verbatim>\<open>_id\<close> and \<^verbatim>\<open>createdAt = Date.now()\<close>.
\<close>

definition Msg_save :: "int \<Rightarrow> store \<Rightarrow> string \<Rightarrow> string \<Rightarrow> string \<Rightarrow> nat \<Rightarrow> store" where
  "Msg_save now st sid q a sz =
     st\<lparr>msgs := msgs st @
           [\<lparr>msg_id = next_id st, sessionId = sid, question = q, answer = a,
             msgSize = sz, createdAt = now\<rparr>],
        next_id := Suc (next_id st)\<rparr>"

text \<open>
  \<^verbatim>\<open>Msg.find({ sessionId }).sort({ createdAt: 1 })\<close> and \<^verbatim>\<open>.sort({ createdAt: -1 })\<close>.
  MongoDB leaves the order of documents with equal keys open; the model sorts stably
  and reverses for the descending order, so that among equal timestamps the ascending
  order is the insertion order and the descending order is its reverse.
\<close>

definition Msg_find_asc :: "store \<Rightarrow> string \<Rightarrow> msg list" where
  "Msg_find_asc st sid = sort_key createdAt (filter (\<lambda>r. sessionId r = sid) (msgs st))"

definition Msg_find_desc :: "store \<Rightarrow> string \<Rightarrow> msg list" where
  "Msg_find_desc st sid = rev (sort_key createdAt (filter (\<lambda>r. sessionId r = sid) (msgs st)))"

text \<open>\<^verbatim>\<open>Msg.deleteOne({ _id })\<close> removes the first document with that id, if any.\<close>

fun Msg_deleteOne :: "nat \<Rightarrow> msg list \<Rightarrow> msg list" where
  "Msg_deleteOne i [] = []"
| "Msg_deleteOne i (r # rs) = (if msg_id r = i then rs else r # Msg_deleteOne i rs)"

text \<open>\<^verbatim>\<open>Msg.deleteMany({ sessionId })\<close>.\<close>

definition clearConversation :: "store \<Rightarrow> string \<Rightarrow> store" where
  "clearConversation st sid = st\<lparr>msgs := filter (\<lambda>r. sessionId r \<noteq> sid) (msgs st)\<rparr>"

subsection \<open>discardConversation and saveConversation\<close>

text \<open>
  The \<^verbatim>\<open>forEach\<close> of \<^verbatim>\<open>discardConversation\<close>: \<open>countList\<close> pairs each document's id
  with the running \<^verbatim>\<open>totalSize\<close>, the document's own size included.
\<close>

fun countList :: "nat \<Rightarrow> msg list \<Rightarrow> (nat \<times> nat) list" where
  "countList totalSize [] = []"
| "countList totalSize (row # rows) =
     (msg_id row, totalSize + msgSize row) # countList (totalSize + msgSize row) rows"

text \<open>The \<^verbatim>\<open>for (const c of countList)\<close> loop: one \<^verbatim>\<open>deleteOne\<close> per entry over 1024.\<close>

fun delete_over :: "(nat \<times> nat) list \<Rightarrow> msg list \<Rightarrow> msg list" where
  "delete_over [] ms = ms"
| "delete_over ((i, totalSize) # cs) ms =
     delete_over cs (if totalSize > 1024 then Msg_deleteOne i ms else ms)"

definition discardConversation :: "store \<Rightarrow> string \<Rightarrow> store" where
  "discardConversation st sid =
     st\<lparr>msgs := delete_over (countList 0 (Msg_find_desc st sid)) (msgs st)\<rparr>"

text \<open>
  The trim policy in the specification's words: \<open>cumulative rows i\<close> is the running sum
  of \<open>msgSize\<close> over \<open>rows\<close> (newest first) down to and including the turn whose id
  is \<open>i\<close>. The source does not compute it this way; the theorems below compare the two.
\<close>

fun cumulative :: "msg list \<Rightarrow> nat \<Rightarrow> nat" where
  "cumulative [] i = 0"
| "cumulative (r # rs) i = msgSize r + (if msg_id r = i then 0 else cumulative rs i)"

text \<open>
  \<^verbatim>\<open>saveConversation(sessionId, question, answer)\<close>. \<open>None\<close> is \<^verbatim>\<open>undefined\<close>; the
  test \<^verbatim>\<open>!question || !answer\<close> is true of \<^verbatim>\<open>undefined\<close> and of the empty string. The
  \<^verbatim>\<open>catch\<close> logs and rethrows.
\<close>

definition saveConversation ::
  "int \<Rightarrow> store \<Rightarrow> string \<Rightarrow> string option \<Rightarrow> string option \<Rightarrow> error + store" where
  "saveConversation now st sid q a =
     (case (q, a) of
        (Some qs, Some ans) \<Rightarrow>
          if qs = [] \<or> ans = [] then Inl (JsError ''Question or answer is missing or empty.'')
          else Inr (discardConversation (Msg_save now st sid qs ans (length qs + length ans)) sid)
      | _ \<Rightarrow> Inl (JsError ''Question or answer is missing or empty.''))"

text \<open>
  The ids of a store are well formed when they are pairwise distinct and below the
  next fresh id; the empty store is, and every operation keeps it so.
\<close>

definition wf_store :: "store \<Rightarrow> bool" where
  "wf_store st = (distinct (map msg_id (msgs st)) \<and> list_all (\<lambda>r. msg_id r < next_id st) (msgs st))"

subsection \<open>buildConversation\<close>

datatype role = User | Assistant

record prompt_entry =
  role :: role
  content :: string

text \<open>
  The \<^verbatim>\<open>forEach\<close> pushes two entries per row onto \<^verbatim>\<open>prompt\<close>; the new question is
  pushed last.
\<close>

definition push_row :: "prompt_entry list \<Rightarrow> msg \<Rightarrow> prompt_entry list" where
  "push_row prompt row =
     prompt @ [\<lparr>role = User, content = question row\<rparr>, \<lparr>role = Assistant, content = answer row\<rparr>]"

definition buildConversation :: "store \<Rightarrow> string \<Rightarrow> string \<Rightarrow> prompt_entry list" where
  "buildConversation st sid q =
     foldl push_row [] (Msg_find_asc st sid) @ [\<lparr>role = User, content = q\<rparr>]"

subsection \<open>The session id of the primary variant\<close>

text \<open>\<^verbatim>\<open>const sessionId = chatId + senderId;\<close>\<close>

definition session_of :: "string \<Rightarrow> string \<Rightarrow> string" where
  "session_of chatId senderId = chatId @ senderId"


subsection \<open>The Event collection\<close>

text \<open>\<^verbatim>\<open>Event.findOne({ event_id: eventId })\<close>.\<close>

definition Event_findOne :: "store \<Rightarrow> string \<Rightarrow> event option" where
  "Event_findOne st eid = find (\<lambda>e. event_id e = eid) (events st)"

text \<open>
  \<^verbatim>\<open>new Event(doc).save()\<close>. The unique index on \<^verbatim>\<open>event_id\<close> rejects a second
  document with an id already stored, with error code 11000. \<open>fault\<close> is a failure the
  environment injects into this one call: a storage failure of any kind, or, with code
  11000, a concurrent delivery that stored the id first.
\<close>

definition Event_save :: "error option \<Rightarrow> store \<Rightarrow> event \<Rightarrow> error + store" where
  "Event_save fault st ev =
     (case fault of
        Some err \<Rightarrow> Inl err
      | None \<Rightarrow>
          if event_id ev \<in> set (map event_id (events st)) then Inl (MongoError 11000)
          else Inr (st\<lparr>events := events st @ [ev]\<rparr>))"

text \<open>
  The \<^verbatim>\<open>try { await new Event(...).save() } catch (error) { if (error.code === 11000)
  ... else throw error }\<close> block, which stands twice in the source (in the route handler
  and at the end of \<^verbatim>\<open>handleReply\<close>): a duplicate key is an outcome, any other error is
  rethrown.
\<close>

datatype recorded = Inserted | Duplicate

definition record_event :: "error option \<Rightarrow> store \<Rightarrow> event \<Rightarrow> error + (recorded \<times> store)" where
  "record_event fault st ev =
     (case Event_save fault st ev of
        Inr st' \<Rightarrow> Inr (Inserted, st')
      | Inl err \<Rightarrow> if error_code err = Some 11000 then Inr (Duplicate, st) else Inl err)"

subsection \<open>Strings\<close>

text \<open>
  \<^verbatim>\<open>String.prototype.trim\<close>, \<^verbatim>\<open>replace\<close> with a string pattern (the first occurrence
  only) and \<^verbatim>\<open>startsWith\<close>. The white space is that of the code units below 256.
\<close>

definition whitespace :: "char \<Rightarrow> bool" where
  "whitespace c = (c \<in> set [CHR 0x09, CHR 0x0A, CHR 0x0B, CHR 0x0C, CHR 0x0D, CHR 0x20, CHR 0xA0])"

definition trim :: "string \<Rightarrow> string" where
  "trim s = rev (dropWhile whitespace (rev (dropWhile whitespace s)))"

fun replace_first :: "string \<Rightarrow> string \<Rightarrow> string \<Rightarrow> string" where
  "replace_first pat rep [] = (if pat = [] then rep else [])"
| "replace_first pat rep (c # cs) =
     (if take (length pat) (c # cs) = pat then rep @ drop (length pat) (c # cs)
      else c # replace_first pat rep cs)"

definition startsWith :: "string \<Rightarrow> string \<Rightarrow> bool" where
  "startsWith p s = (take (length p) s = p)"

text \<open>A value is falsy when it is \<^verbatim>\<open>undefined\<close> or the empty string.\<close>

definition falsy :: "string option \<Rightarrow> bool" where
  "falsy v = (case v of None \<Rightarrow> True | Some s \<Rightarrow> s = [])"

subsection \<open>Calls to the outside\<close>

text \<open>
  What a request does to the outside is kept in a trace: each \<^verbatim>\<open>fetch\<close> to the
  completion endpoint with its body, and each \<^verbatim>\<open>client.im.message.reply\<close> with the
  message id and the text.
\<close>

datatype payload =
    Prompt "prompt_entry list"
  | Flowise string string

datatype effect =
    Fetch payload
  | Reply string "string option"

text \<open>
  The answer of the endpoint. \<open>body\<close> is what \<^verbatim>\<open>response.json()\<close> gives: \<open>None\<close> when
  it rejects, \<open>JNull\<close> for \<^verbatim>\<open>null\<close>, and \<open>JObject t\<close> for any other value, \<open>t\<close> being
  its \<^verbatim>\<open>text\<close> property when it has one. A \<^verbatim>\<open>text\<close> is taken to be a string.
\<close>

datatype json = JNull | JObject "string option"

record http_response =
  ok :: bool
  statusText :: string
  body :: "json option"

datatype fetched = Rejected | Responded http_response

text \<open>
  In the specification's words: the generated text of a well-formed response, the
  non-empty \<^verbatim>\<open>text\<close> field of a JSON body.
\<close>

definition generated_text :: "http_response \<Rightarrow> string option" where
  "generated_text r =
     (case body r of
        Some (JObject (Some t)) \<Rightarrow> if t = [] then None else Some t
      | _ \<Rightarrow> None)"

text \<open>\<^verbatim>\<open>query(data)\<close> of the primary variant: no test of the status, no test of the shape.\<close>

definition query :: "fetched \<Rightarrow> payload \<Rightarrow> effect list \<Rightarrow> (error + json) \<times> effect list" where
  "query f data tr =
     (case f of
        Rejected \<Rightarrow> (Inl FetchError, tr @ [Fetch data])
      | Responded r \<Rightarrow>
          (case body r of
             None \<Rightarrow> (Inl SyntaxError, tr @ [Fetch data])
           | Some result \<Rightarrow> (Inr result, tr @ [Fetch data])))"

text \<open>\<^verbatim>\<open>queryFlowise(question, sessionId)\<close> of the secondary variant.\<close>

definition queryFlowise ::
  "fetched \<Rightarrow> string \<Rightarrow> string option \<Rightarrow> effect list \<Rightarrow> (error + string) \<times> effect list" where
  "queryFlowise f q sid tr =
     (let data = Flowise q (case sid of None \<Rightarrow> ''default-session''
                                      | Some s \<Rightarrow> if s = [] then ''default-session'' else s);
          tr' = tr @ [Fetch data]
      in case f of
           Rejected \<Rightarrow> (Inl FetchError, tr')
         | Responded r \<Rightarrow>
             if \<not> ok r then
               (Inl (JsError (''Flowise API returned an error: '' @ statusText r)), tr')
             else
               (case body r of
                  None \<Rightarrow> (Inl SyntaxError, tr')
                | Some JNull \<Rightarrow> (Inl (JsError ''Invalid response from Flowise API''), tr')
                | Some (JObject t) \<Rightarrow>
                    if falsy t then (Inl (JsError ''Invalid response from Flowise API''), tr')
                    else (Inr (the t), tr')))"

subsection \<open>The secondary variant's route\<close>

datatype teams_body = ErrorBody string | MessageBody string

record http_reply =
  status :: nat
  reply_body :: teams_body

text \<open>
  \<^verbatim>\<open>app.post("/teams-webhook")\<close>; \<open>txt\<close> and \<open>sid\<close> are the \<^verbatim>\<open>text\<close> and
  \<^verbatim>\<open>sessionId\<close> of the request body. \<^verbatim>\<open>res.json\<close> alone answers with status 200.
\<close>

definition teams_webhook ::
  "fetched \<Rightarrow> string option \<Rightarrow> string option \<Rightarrow> effect list \<Rightarrow> http_reply \<times> effect list" where
  "teams_webhook f txt sid tr =
     (if falsy txt \<or> falsy sid then
        (\<lparr>status = 400,
          reply_body = ErrorBody (''Invalid input. '' @ [CHR 0x27] @ ''text'' @ [CHR 0x27] @
            '' and '' @ [CHR 0x27] @ ''sessionId'' @ [CHR 0x27] @ '' are required.'')\<rparr>, tr)
      else
        (case queryFlowise f (the txt) sid tr of
           (Inr ans, tr') \<Rightarrow> (\<lparr>status = 200, reply_body = MessageBody ans\<rparr>, tr')
         | (Inl err, tr') \<Rightarrow>
             (\<lparr>status = 500,
               reply_body = ErrorBody ''Internal Server Error. Please try again later.''\<rparr>, tr')))"

subsection \<open>The primary variant's route\<close>

record world =
  db :: store
  trace :: "effect list"

text \<open>\<^verbatim>\<open>reply\<close> catches and logs every failure of the platform call: it never throws.\<close>

definition reply :: "string \<Rightarrow> string option \<Rightarrow> world \<Rightarrow> world" where
  "reply messageId txt w = w\<lparr>trace := trace w @ [Reply messageId txt]\<rparr>"

datatype response =
    Challenge "string option"
  | Code nat "string option"

text \<open>
  \<open>Code c m\<close> is \<^verbatim>\<open>{ code: c, message: m }\<close>; of a message given in two languages the
  model keeps the \<^verbatim>\<open>en_US\<close> text. \<open>check_mark\<close> is U+2705, written as its UTF-8 bytes.
\<close>

definition check_mark :: string where
  "check_mark = [CHR 0xE2, CHR 0x9C, CHR 0x85]"

definition helpText :: string where
  "helpText = ''Lark GPT manpages'' @ [CHR 0x0A, CHR 0x0A] @ ''Usage:'' @ [CHR 0x0A] @
     ''    /clear    remove conversation history for get a new, clean, bot context.'' @ [CHR 0x0A] @
     ''    /help     get more help message'' @ [CHR 0x0A] @ ''  ''"

definition cmdHelp :: "string \<Rightarrow> world \<Rightarrow> world" where
  "cmdHelp messageId w = reply messageId (Some helpText) w"

text \<open>
  \<^verbatim>\<open>cmdClear\<close> starts \<^verbatim>\<open>clearConversation\<close> without awaiting it; the model lets the
  deletion happen before the reply.
\<close>

definition cmdClear :: "string \<Rightarrow> string \<Rightarrow> world \<Rightarrow> world" where
  "cmdClear sid messageId w =
     reply messageId (Some (check_mark @ '' All history removed''))
       (w\<lparr>db := clearConversation (db w) sid\<rparr>)"

definition cmdProcess :: "string \<Rightarrow> string \<Rightarrow> string \<Rightarrow> world \<Rightarrow> (error + response) \<times> world" where
  "cmdProcess action sid messageId w =
     (if action = ''/help'' then (Inr (Code 0 None), cmdHelp messageId w)
      else if action = ''/clear'' then (Inr (Code 0 None), cmdClear sid messageId w)
      else (Inr (Code 0 None), cmdHelp messageId w))"

record config =
  LARK_APP_ID :: string
  LARK_APP_SECRET :: string

definition doctor :: "config \<Rightarrow> response" where
  "doctor cfg =
     (if LARK_APP_ID cfg = [] then
        Code 1 (Some ''Here is no Lark APP id, please check & re-Deploy & call again'')
      else if \<not> startsWith ''cli_'' (LARK_APP_ID cfg) then
        Code 1 (Some ''Your Lark App ID is Wrong, Please Check and call again. Lark APPID must Start with cli'')
      else if LARK_APP_SECRET cfg = [] then
        Code 1 (Some ''Here is no Lark APP Secret, please check & re-Deploy & call again'')
      else
        Code 0 (Some (check_mark @ '' Configuration is correct, you can use this bot in your Lark App'')))"

text \<open>
  What one request gets from the environment: the clock value for the turn it may
  store, the endpoint's answer to the one \<^verbatim>\<open>fetch\<close> it may make, and the faults of its
  two \<^verbatim>\<open>Event\<close> saves (the route's, then \<^verbatim>\<open>handleReply\<close>'s).
\<close>

record env =
  clock :: int
  fetch_answer :: fetched
  save_fault1 :: "error option"
  save_fault2 :: "error option"

text \<open>
  \<^verbatim>\<open>handleReply(userInput, sessionId, messageId, eventId)\<close>. \<open>input_text\<close> is
  \<^verbatim>\<open>userInput.text\<close>, \<open>None\<close> when the parsed content has no such string. The
  \<^verbatim>\<open>.then\<close> reads \<^verbatim>\<open>response.text\<close>; the \<^verbatim>\<open>.catch\<close> logs whatever failed before it
  (the query, or the read of \<^verbatim>\<open>text\<close> on \<^verbatim>\<open>null\<close>) and leaves \<^verbatim>\<open>openaiResponse\<close>
  undefined.
\<close>

definition handleReply ::
  "env \<Rightarrow> string option \<Rightarrow> string \<Rightarrow> string \<Rightarrow> string \<Rightarrow> world \<Rightarrow> (error + response) \<times> world" where
  "handleReply e input_text sid messageId eventId w =
     (case input_text of
        None \<Rightarrow> (Inl TypeError, w)
      | Some txt \<Rightarrow>
          (let q = trim (replace_first ''@_user_1'' [] txt);
               action = trim q
           in if startsWith ''/'' action then cmdProcess action sid messageId w
              else
                (let prompt = buildConversation (db w) sid q;
                     queried = query (fetch_answer e) (Prompt prompt) (trace w);
                     openaiResponse =
                       (case fst queried of
                          Inl err \<Rightarrow> None
                        | Inr JNull \<Rightarrow> None
                        | Inr (JObject t) \<Rightarrow> t);
                     w1 = w\<lparr>trace := snd queried\<rparr>
                 in case saveConversation (clock e) (db w1) sid (Some q) openaiResponse of
                      Inl err \<Rightarrow> (Inl err, w1)
                    | Inr st \<Rightarrow>
                        (let w2 = reply messageId openaiResponse (w1\<lparr>db := st\<rparr>)
                         in case record_event (save_fault2 e) (db w2)
                                   \<lparr>event_id = eventId, ev_content = Some txt\<rparr> of
                              Inl err \<Rightarrow> (Inl err, w2)
                            | Inr (Duplicate, st') \<Rightarrow>
                                (Inr (Code 1 (Some ''Duplicate event ID'')), w2)
                            | Inr (Inserted, st') \<Rightarrow> (Inr (Code 0 None), w2\<lparr>db := st'\<rparr>)))))"

text \<open>
  The body of a request to \<^verbatim>\<open>/webhook\<close>. \<open>msg_content\<close> is
  \<^verbatim>\<open>JSON.parse(params.event.message.content)\<close>: \<open>NotJson\<close> when the parse throws,
  \<open>Json t\<close> otherwise, \<open>t\<close> being the parsed value's \<^verbatim>\<open>text\<close> when it is a string. A
  request whose header names a received message carries the message and the sender.
\<close>

datatype content_json = NotJson | Json "string option"

record lark_message =
  message_id :: string
  chat_id :: string
  message_type :: string
  chat_type :: string
  msg_content :: content_json

record lark_header =
  event_type :: string
  hdr_event_id :: string

record request =
  encrypt :: bool
  req_type :: "string option"
  challenge :: "string option"
  header :: "lark_header option"
  debug :: bool
  message :: lark_message
  sender_user_id :: string

text \<open>\<^verbatim>\<open>app.post("/webhook")\<close>. A throw leaves the route with no response of its own.\<close>

definition webhook :: "config \<Rightarrow> env \<Rightarrow> request \<Rightarrow> world \<Rightarrow> (error + response) \<times> world" where
  "webhook cfg e req w =
     (if encrypt req then
        (Inr (Code 1 (Some ''You have open Encrypt Key Feature, please close it.'')), w)
      else if req_type req = Some ''url_verification'' then (Inr (Challenge (challenge req)), w)
      else
        (case header req of
           None \<Rightarrow> (Inr (doctor cfg), w)
         | Some h \<Rightarrow>
             if debug req then (Inr (doctor cfg), w)
             else if event_type h = ''im.message.receive_v1'' then
               (let eventId = hdr_event_id h;
                    messageId = message_id (message req);
                    sid = session_of (chat_id (message req)) (sender_user_id req)
                in case Event_findOne (db w) eventId of
                     Some ev \<Rightarrow> (Inr (Code 1 None), w)
                   | None \<Rightarrow>
                       (case record_event (save_fault1 e) (db w)
                               \<lparr>event_id = eventId, ev_content = None\<rparr> of
                          Inl err \<Rightarrow> (Inl err, w)
                        | Inr (Duplicate, st) \<Rightarrow> (Inr (Code 1 (Some ''Duplicate event ID'')), w)
                        | Inr (Inserted, st) \<Rightarrow>
                            (let w1 = w\<lparr>db := st\<rparr>
                             in if chat_type (message req) = ''p2p'' then
                                  (if message_type (message req) \<noteq> ''text'' then
                                     (Inr (Code 0 None),
                                      reply messageId
                                        (Some ''Not support other format question, only text.'') w1)
                                   else
                                     (case msg_content (message req) of
                                        NotJson \<Rightarrow> (Inl SyntaxError, w1)
                                      | Json t \<Rightarrow> handleReply e t sid messageId eventId w1))
                                else if chat_type (message req) = ''group'' then
                                  (case msg_content (message req) of
                                     NotJson \<Rightarrow> (Inl SyntaxError, w1)
                                   | Json t \<Rightarrow> handleReply e t sid messageId eventId w1)
                                else (Inr (Code 2 None), w1))))
             else (Inr (Code 2 None), w)))"


text \<open>
  The request the platform sends for a received message, and an environment without
  storage faults.
\<close>

definition received ::
  "string \<Rightarrow> string \<Rightarrow> string \<Rightarrow> string \<Rightarrow> string \<Rightarrow> string \<Rightarrow> content_json \<Rightarrow> request" where
  "received eventId messageId chatId senderId chatType messageType c =
     \<lparr>encrypt = False, req_type = None, challenge = None,
      header = Some \<lparr>event_type = ''im.message.receive_v1'', hdr_event_id = eventId\<rparr>,
      debug = False,
      message = \<lparr>message_id = messageId, chat_id = chatId, message_type = messageType,
                 chat_type = chatType, msg_content = c\<rparr>,
      sender_user_id = senderId\<rparr>"

definition faultless :: "int \<Rightarrow> fetched \<Rightarrow> env" where
  "faultless t f = \<lparr>clock = t, fetch_answer = f, save_fault1 = None, save_fault2 = None\<rparr>"

definition answering :: "string \<Rightarrow> fetched" where
  "answering t = Responded \<lparr>ok = True, statusText = ''OK'', body = Some (JObject (Some t))\<rparr>"

section \<open>The trim policy\<close>

subsection \<open>What the deletion loop removes\<close>

text \<open>
  With pairwise distinct ids, \<^verbatim>\<open>deleteOne\<close> by id is a filter, and the loop removes the
  documents whose entry of \<open>countList\<close> is over 1024.
\<close>

lemma Msg_deleteOne_filter:
  "distinct (map msg_id ms) \<Longrightarrow> Msg_deleteOne i ms = filter (\<lambda>r. msg_id r \<noteq> i) ms"
proof (induction ms)
  case Nil
  then show ?case by simp
next
  case (Cons r rs)
  show ?case
  proof (cases "msg_id r = i")
    case True
    from Cons.prems have "msg_id r \<notin> msg_id ` set rs" by simp
    with True have "\<forall>x\<in>set rs. msg_id x \<noteq> i" by blast
    then have "filter (\<lambda>r. msg_id r \<noteq> i) rs = rs" by simp
    with True show ?thesis by simp
  next
    case False
    with Cons show ?thesis by simp
  qed
qed

lemma delete_over_filter:
  "distinct (map msg_id ms) \<Longrightarrow>
   delete_over cs ms = filter (\<lambda>r. \<not> (\<exists>t. (msg_id r, t) \<in> set cs \<and> 1024 < t)) ms"
proof (induction cs arbitrary: ms)
  case Nil
  then show ?case by simp
next
  case (Cons c cs)
  obtain i t where c: "c = (i, t)" by (cases c)
  show ?case
  proof (cases "1024 < t")
    case True
    have d: "distinct (map msg_id (filter (\<lambda>r. msg_id r \<noteq> i) ms))"
      using Cons.prems by (simp add: distinct_map_filter)
    have "delete_over (c # cs) ms = delete_over cs (filter (\<lambda>r. msg_id r \<noteq> i) ms)"
      using True c Cons.prems by (simp add: Msg_deleteOne_filter)
    also have "\<dots> = filter (\<lambda>r. \<not> (\<exists>t. (msg_id r, t) \<in> set cs \<and> 1024 < t))
                       (filter (\<lambda>r. msg_id r \<noteq> i) ms)"
      by (rule Cons.IH [OF d])
    also have "\<dots> = filter (\<lambda>r. \<not> (\<exists>t. (msg_id r, t) \<in> set (c # cs) \<and> 1024 < t)) ms"
      using True c by (auto intro: filter_cong)
    finally show ?thesis .
  next
    case False
    have "delete_over (c # cs) ms = delete_over cs ms"
      using False c by simp
    also have "\<dots> = filter (\<lambda>r. \<not> (\<exists>t. (msg_id r, t) \<in> set cs \<and> 1024 < t)) ms"
      by (rule Cons.IH [OF Cons.prems])
    also have "\<dots> = filter (\<lambda>r. \<not> (\<exists>t. (msg_id r, t) \<in> set (c # cs) \<and> 1024 < t)) ms"
      using False c by (auto intro: filter_cong)
    finally show ?thesis .
  qed
qed

lemma countList_cumulative:
  "distinct (map msg_id rows) \<Longrightarrow>
   countList t0 rows = map (\<lambda>r. (msg_id r, t0 + cumulative rows (msg_id r))) rows"
proof (induction rows arbitrary: t0)
  case Nil
  then show ?case by simp
next
  case (Cons r rs)
  have d: "distinct (map msg_id rs)" using Cons.prems by simp
  have ne: "\<And>x. x \<in> set rs \<Longrightarrow> msg_id r \<noteq> msg_id x" using Cons.prems by auto
  have "countList (t0 + msgSize r) rs =
        map (\<lambda>x. (msg_id x, t0 + msgSize r + cumulative rs (msg_id x))) rs"
    by (rule Cons.IH [OF d])
  also have "\<dots> = map (\<lambda>x. (msg_id x, t0 + cumulative (r # rs) (msg_id x))) rs"
    using ne by (intro map_cong) auto
  finally show ?case by simp
qed


lemma Msg_find_desc_set:
  "set (Msg_find_desc st sid) = {r \<in> set (msgs st). sessionId r = sid}"
  by (auto simp: Msg_find_desc_def)

lemma Msg_find_desc_distinct:
  "distinct (map msg_id (msgs st)) \<Longrightarrow> distinct (map msg_id (Msg_find_desc st sid))"
proof -
  assume d: "distinct (map msg_id (msgs st))"
  let ?f = "filter (\<lambda>r. sessionId r = sid) (msgs st)"
  have "mset (map msg_id (Msg_find_desc st sid)) = mset (map msg_id ?f)"
    by (simp add: Msg_find_desc_def)
  moreover have "distinct (map msg_id ?f)" using d by (simp add: distinct_map_filter)
  ultimately show ?thesis by (metis mset_eq_imp_distinct_iff)
qed

lemma countList_mem:
  assumes "distinct (map msg_id rows)"
  shows "(i, t) \<in> set (countList t0 rows) \<longleftrightarrow>
         (\<exists>x\<in>set rows. msg_id x = i \<and> t = t0 + cumulative rows i)"
proof -
  have "(i, t) \<in> set (countList t0 rows) \<longleftrightarrow>
        (\<exists>x\<in>set rows. i = msg_id x \<and> t = t0 + cumulative rows (msg_id x))"
    by (simp add: countList_cumulative [OF assms] image_iff)
  also have "\<dots> \<longleftrightarrow> (\<exists>x\<in>set rows. msg_id x = i \<and> t = t0 + cumulative rows i)"
    by auto
  finally show ?thesis .
qed

lemma discardConversation_msgs:
  assumes "distinct (map msg_id (msgs st))"
  shows "msgs (discardConversation st sid) =
         filter (\<lambda>r. \<not> (sessionId r = sid \<and> 1024 < cumulative (Msg_find_desc st sid) (msg_id r)))
           (msgs st)"
proof -
  let ?L = "Msg_find_desc st sid"
  have dL: "distinct (map msg_id ?L)" by (rule Msg_find_desc_distinct [OF assms])
  have inj: "\<And>x y. x \<in> set (msgs st) \<Longrightarrow> y \<in> set (msgs st) \<Longrightarrow> msg_id x = msg_id y \<Longrightarrow> x = y"
    using assms by (meson distinct_map inj_onD)
  have "msgs (discardConversation st sid) =
        filter (\<lambda>r. \<not> (\<exists>t. (msg_id r, t) \<in> set (countList 0 ?L) \<and> 1024 < t)) (msgs st)"
    by (simp add: discardConversation_def delete_over_filter [OF assms])
  also have "\<dots> = filter (\<lambda>r. \<not> (sessionId r = sid \<and> 1024 < cumulative ?L (msg_id r))) (msgs st)"
  proof (rule filter_cong [OF refl])
    fix r assume r: "r \<in> set (msgs st)"
    have "(\<exists>t. (msg_id r, t) \<in> set (countList 0 ?L) \<and> 1024 < t) \<longleftrightarrow>
          (\<exists>x\<in>set ?L. msg_id x = msg_id r \<and> 1024 < cumulative ?L (msg_id r))"
      by (simp add: countList_mem [OF dL])
    also have "\<dots> \<longleftrightarrow> (sessionId r = sid \<and> 1024 < cumulative ?L (msg_id r))"
      using r inj by (auto simp: Msg_find_desc_set)
    finally show "(\<not> (\<exists>t. (msg_id r, t) \<in> set (countList 0 ?L) \<and> 1024 < t)) =
                  (\<not> (sessionId r = sid \<and> 1024 < cumulative ?L (msg_id r)))" by simp
  qed
  finally show ?thesis .
qed

lemma filter_cumulative_takeWhile:
  "distinct (map msg_id rows) \<Longrightarrow>
   filter (\<lambda>r. t0 + cumulative rows (msg_id r) \<le> b) rows =
   takeWhile (\<lambda>r. t0 + cumulative rows (msg_id r) \<le> b) rows"
proof (induction rows arbitrary: t0)
  case Nil
  then show ?case by simp
next
  case (Cons r rs)
  have d: "distinct (map msg_id rs)" using Cons.prems by simp
  have ne: "\<And>x. x \<in> set rs \<Longrightarrow> msg_id r \<noteq> msg_id x" using Cons.prems by auto
  have c: "\<And>x. x \<in> set rs \<Longrightarrow>
             t0 + cumulative (r # rs) (msg_id x) = (t0 + msgSize r) + cumulative rs (msg_id x)"
    using ne by simp
  show ?case
  proof (cases "t0 + msgSize r \<le> b")
    case True
    have "filter (\<lambda>x. t0 + cumulative (r # rs) (msg_id x) \<le> b) rs =
          filter (\<lambda>x. (t0 + msgSize r) + cumulative rs (msg_id x) \<le> b) rs"
      using c by (intro filter_cong) auto
    moreover have "takeWhile (\<lambda>x. t0 + cumulative (r # rs) (msg_id x) \<le> b) rs =
          takeWhile (\<lambda>x. (t0 + msgSize r) + cumulative rs (msg_id x) \<le> b) rs"
      using c by (intro takeWhile_cong) auto
    ultimately show ?thesis using True Cons.IH [OF d, of "t0 + msgSize r"] by simp
  next
    case False
    have "filter (\<lambda>x. t0 + cumulative (r # rs) (msg_id x) \<le> b) rs = []"
      using False c by (auto simp: filter_empty_conv)
    with False show ?thesis by simp
  qed
qed

lemma takeWhile_cumulative_sum:
  "distinct (map msg_id rows) \<Longrightarrow> t0 \<le> b \<Longrightarrow>
   t0 + sum_list (map msgSize (takeWhile (\<lambda>r. t0 + cumulative rows (msg_id r) \<le> b) rows)) \<le> b"
proof (induction rows arbitrary: t0)
  case Nil
  then show ?case by simp
next
  case (Cons r rs)
  have d: "distinct (map msg_id rs)" using Cons.prems by simp
  have ne: "\<And>x. x \<in> set rs \<Longrightarrow> msg_id r \<noteq> msg_id x" using Cons.prems by auto
  show ?case
  proof (cases "t0 + msgSize r \<le> b")
    case True
    have "takeWhile (\<lambda>x. t0 + cumulative (r # rs) (msg_id x) \<le> b) rs =
          takeWhile (\<lambda>x. (t0 + msgSize r) + cumulative rs (msg_id x) \<le> b) rs"
    proof (rule takeWhile_cong [OF refl])
      fix x assume "x \<in> set rs"
      then show "(t0 + cumulative (r # rs) (msg_id x) \<le> b) =
            ((t0 + msgSize r) + cumulative rs (msg_id x) \<le> b)"
        using ne by (simp add: add.assoc)
    qed
    then show ?thesis using True Cons.IH [OF d True] by (simp add: add.assoc)
  next
    case False
    with Cons.prems show ?thesis by simp
  qed
qed


lemma Msg_find_desc_discard:
  assumes "distinct (map msg_id (msgs st))"
  shows "Msg_find_desc (discardConversation st sid) sid =
         takeWhile (\<lambda>r. cumulative (Msg_find_desc st sid) (msg_id r) \<le> 1024) (Msg_find_desc st sid)"
proof -
  let ?L = "Msg_find_desc st sid"
  let ?keep = "\<lambda>r. cumulative ?L (msg_id r) \<le> 1024"
  have "filter (\<lambda>r. sessionId r = sid) (msgs (discardConversation st sid)) =
        filter ?keep (filter (\<lambda>r. sessionId r = sid) (msgs st))"
    unfolding discardConversation_msgs [OF assms] filter_filter
    by (rule filter_cong [OF refl]) auto
  then have "Msg_find_desc (discardConversation st sid) sid =
             rev (sort_key createdAt (filter ?keep (filter (\<lambda>r. sessionId r = sid) (msgs st))))"
    by (simp only: Msg_find_desc_def)
  also have "\<dots> = filter ?keep ?L"
    by (simp only: Msg_find_desc_def filter_sort [symmetric] rev_filter)
  also have "\<dots> = takeWhile ?keep ?L"
    using filter_cumulative_takeWhile [where rows = ?L and ?t0.0 = 0 and b = 1024]
      Msg_find_desc_distinct [OF assms, of sid]
    by simp
  finally show ?thesis .
qed

lemma session_sum_desc:
  "sum_list (map msgSize (filter (\<lambda>r. sessionId r = sid) (msgs st))) =
   sum_list (map msgSize (Msg_find_desc st sid))"
proof -
  have "mset (map msgSize (Msg_find_desc st sid)) =
        mset (map msgSize (filter (\<lambda>r. sessionId r = sid) (msgs st)))"
    by (simp add: Msg_find_desc_def)
  then show ?thesis by (metis sum_mset_sum_list)
qed

lemma discardConversation_sum:
  assumes "distinct (map msg_id (msgs st))"
  shows "sum_list (map msgSize (filter (\<lambda>r. sessionId r = sid)
           (msgs (discardConversation st sid)))) \<le> 1024"
proof -
  have "sum_list (map msgSize (Msg_find_desc (discardConversation st sid) sid)) \<le> 1024"
    unfolding Msg_find_desc_discard [OF assms]
    using takeWhile_cumulative_sum [where rows = "Msg_find_desc st sid" and ?t0.0 = 0 and b = 1024]
      Msg_find_desc_distinct [OF assms, of sid]
    by simp
  then show ?thesis by (simp add: session_sum_desc)
qed

lemma cumulative_ge_own:
  "r \<in> set rows \<Longrightarrow> distinct (map msg_id rows) \<Longrightarrow> msgSize r \<le> cumulative rows (msg_id r)"
proof (induction rows)
  case Nil
  then show ?case by simp
next
  case (Cons x xs)
  show ?case
  proof (cases "x = r")
    case True
    then show ?thesis by simp
  next
    case False
    with Cons.prems have r: "r \<in> set xs" by simp
    have "msg_id x \<notin> msg_id ` set xs" using Cons.prems by simp
    with r have ne: "msg_id x \<noteq> msg_id r" by blast
    have "distinct (map msg_id xs)" using Cons.prems by simp
    with r have "msgSize r \<le> cumulative xs (msg_id r)" by (rule Cons.IH)
    with ne show ?thesis by simp
  qed
qed

lemma takeWhile_stops:
  "\<not> P r \<Longrightarrow> \<exists>zs. xs = takeWhile P (xs @ r # ys) @ zs"
proof (induction xs)
  case Nil
  then show ?case by simp
next
  case (Cons x xs)
  then show ?case by (cases "P x") auto
qed

lemma discardConversation_oversized:
  assumes d: "distinct (map msg_id (msgs st))"
    and L: "Msg_find_desc st sid = xs @ r # ys"
    and big: "1024 < msgSize r"
  shows "\<exists>zs. xs = Msg_find_desc (discardConversation st sid) sid @ zs"
proof -
  have "r \<in> set (Msg_find_desc st sid)" using L by simp
  then have "msgSize r \<le> cumulative (Msg_find_desc st sid) (msg_id r)"
    by (rule cumulative_ge_own [OF _ Msg_find_desc_distinct [OF d]])
  with big have "\<not> cumulative (Msg_find_desc st sid) (msg_id r) \<le> 1024" by simp
  then have "\<exists>zs. xs = takeWhile (\<lambda>r. cumulative (Msg_find_desc st sid) (msg_id r) \<le> 1024)
                          (xs @ r # ys) @ zs"
    by (rule takeWhile_stops)
  then show ?thesis unfolding Msg_find_desc_discard [OF d] L .
qed

lemma wf_store_empty: "wf_store empty_store"
  by (simp add: wf_store_def empty_store_def)

lemma wf_store_Msg_save: "wf_store st \<Longrightarrow> wf_store (Msg_save now st sid q a sz)"
  by (auto simp: wf_store_def Msg_save_def list_all_iff less_Suc_eq)

lemma wf_store_discardConversation:
  assumes "wf_store st"
  shows "wf_store (discardConversation st sid)"
proof -
  have d: "distinct (map msg_id (msgs st))" using assms by (simp add: wf_store_def)
  have n: "next_id (discardConversation st sid) = next_id st"
    by (simp add: discardConversation_def)
  show ?thesis
    using assms unfolding wf_store_def n discardConversation_msgs [OF d]
    by (simp add: distinct_map_filter list_all_iff)
qed

lemma wf_store_clearConversation: "wf_store st \<Longrightarrow> wf_store (clearConversation st sid)"
  by (simp add: wf_store_def clearConversation_def distinct_map_filter list_all_iff)

lemma wf_store_saveConversation:
  "wf_store st \<Longrightarrow> saveConversation now st sid q a = Inr st' \<Longrightarrow> wf_store st'"
  by (auto simp: saveConversation_def wf_store_Msg_save wf_store_discardConversation
           split: option.splits if_splits)


lemma insort_key_snoc:
  "k y \<le> k x \<Longrightarrow> insort_key k y (zs @ [x]) = insort_key k y zs @ [x]"
  by (induction zs) auto

lemma sort_key_snoc:
  "\<forall>y\<in>set xs. k y \<le> k x \<Longrightarrow> sort_key k (xs @ [x]) = sort_key k xs @ [x]"
proof (induction xs)
  case Nil
  then show ?case by simp
next
  case (Cons y ys)
  then have "sort_key k (ys @ [x]) = sort_key k ys @ [x]" by simp
  moreover have "k y \<le> k x" using Cons.prems by simp
  ultimately show ?case by (simp add: insort_key_snoc)
qed

lemma Msg_find_desc_Msg_save:
  assumes "\<forall>r\<in>set (msgs st). sessionId r = sid \<longrightarrow> createdAt r < now"
  shows "Msg_find_desc (Msg_save now st sid q a sz) sid =
         \<lparr>msg_id = next_id st, sessionId = sid, question = q, answer = a,
           msgSize = sz, createdAt = now\<rparr> # Msg_find_desc st sid"
proof -
  let ?new = "\<lparr>msg_id = next_id st, sessionId = sid, question = q, answer = a,
               msgSize = sz, createdAt = now\<rparr>"
  let ?old = "filter (\<lambda>r. sessionId r = sid) (msgs st)"
  have "\<forall>y\<in>set ?old. createdAt y \<le> createdAt ?new" using assms by auto
  then have "sort_key createdAt (?old @ [?new]) = sort_key createdAt ?old @ [?new]"
    by (rule sort_key_snoc)
  then show ?thesis by (simp add: Msg_find_desc_def Msg_save_def)
qed

lemma Msg_find_desc_Nil:
  "Msg_find_desc st sid = [] \<Longrightarrow> filter (\<lambda>r. sessionId r = sid) (msgs st) = []"
proof -
  assume "Msg_find_desc st sid = []"
  then have "mset (filter (\<lambda>r. sessionId r = sid) (msgs st)) = {#}"
    by (metis Msg_find_desc_def mset_rev mset_sort mset.simps(1))
  then show ?thesis by simp
qed

lemma saveConversation_oversized:
  assumes wf: "wf_store st"
    and clock: "\<forall>r\<in>set (msgs st). sessionId r = sid \<longrightarrow> createdAt r < now"
    and big: "1024 < length q + length a"
    and run: "saveConversation now st sid (Some q) (Some a) = Inr st'"
  shows "filter (\<lambda>r. sessionId r = sid) (msgs st') = []"
proof -
  let ?s = "Msg_save now st sid q a (length q + length a)"
  let ?new = "\<lparr>msg_id = next_id st, sessionId = sid, question = q, answer = a,
               msgSize = length q + length a, createdAt = now\<rparr>"
  have st': "st' = discardConversation ?s sid"
    using run by (simp add: saveConversation_def split: if_splits)
  have d: "distinct (map msg_id (msgs ?s))"
    using wf_store_Msg_save [OF wf] by (simp add: wf_store_def)
  have L: "Msg_find_desc ?s sid = [] @ ?new # Msg_find_desc st sid"
    by (simp add: Msg_find_desc_Msg_save [OF clock])
  have "1024 < msgSize ?new" using big by simp
  from discardConversation_oversized [OF d L this]
  have "Msg_find_desc st' sid = []" by (simp add: st')
  then show ?thesis by (rule Msg_find_desc_Nil)
qed

lemma scenario_600_500:
  assumes "t1 < t2" "q1 \<noteq> []" "a1 \<noteq> []" "q2 \<noteq> []" "a2 \<noteq> []"
    and "length q1 + length a1 = 600" "length q2 + length a2 = 500"
  shows "\<exists>st1 st2. saveConversation t1 empty_store sid (Some q1) (Some a1) = Inr st1 \<and>
           saveConversation t2 st1 sid (Some q2) (Some a2) = Inr st2 \<and>
           msgs st2 = [\<lparr>msg_id = 1, sessionId = sid, question = q2, answer = a2,
                        msgSize = 500, createdAt = t2\<rparr>]"
  using assms
  by (simp add: saveConversation_def discardConversation_def Msg_save_def Msg_find_desc_def
        empty_store_def)

lemma Msg_find_desc_newest_first:
  "sorted (map createdAt (rev (Msg_find_desc st sid)))"
  by (simp add: Msg_find_desc_def)

lemma saveConversation_runs_discard:
  "q \<noteq> [] \<Longrightarrow> a \<noteq> [] \<Longrightarrow>
   saveConversation now st sid (Some q) (Some a) =
   Inr (discardConversation (Msg_save now st sid q a (length q + length a)) sid)"
  by (simp add: saveConversation_def)

subsection \<open>The trim pass\<close>

text \<open>
  C2. \<^verbatim>\<open>discardConversation\<close> reads the session's turns newest first and deletes
  exactly the turns whose running sum of sizes, their own included, is over 1024. What
  remains of the session is the longest newest-first prefix within the budget, so the
  oldest turns go first; a turn that alone is over 1024 goes, and every older turn with
  it. \<^verbatim>\<open>saveConversation\<close> runs the pass after each insert. Appending a turn of size
  600 and then one of size 500 to the empty store leaves the second one only.
\<close>

theorem discardConversation_trims:
  assumes "wf_store st"
  shows "set (Msg_find_desc st sid) = {r \<in> set (msgs st). sessionId r = sid} \<and>
         sorted (map createdAt (rev (Msg_find_desc st sid))) \<and>
         msgs (discardConversation st sid) =
           filter (\<lambda>r. \<not> (sessionId r = sid \<and>
                            1024 < cumulative (Msg_find_desc st sid) (msg_id r))) (msgs st) \<and>
         Msg_find_desc (discardConversation st sid) sid =
           takeWhile (\<lambda>r. cumulative (Msg_find_desc st sid) (msg_id r) \<le> 1024)
             (Msg_find_desc st sid) \<and>
         (\<forall>xs r ys. Msg_find_desc st sid = xs @ r # ys \<and> 1024 < msgSize r \<longrightarrow>
            (\<exists>zs. xs = Msg_find_desc (discardConversation st sid) sid @ zs)) \<and>
         (\<forall>now q a. q \<noteq> [] \<and> a \<noteq> [] \<longrightarrow>
            saveConversation now st sid (Some q) (Some a) =
            Inr (discardConversation (Msg_save now st sid q a (length q + length a)) sid)) \<and>
         (\<forall>t1 t2 q1 a1 q2 a2.
            t1 < t2 \<and> q1 \<noteq> [] \<and> a1 \<noteq> [] \<and> q2 \<noteq> [] \<and> a2 \<noteq> [] \<and>
            length q1 + length a1 = 600 \<and> length q2 + length a2 = 500 \<longrightarrow>
            (\<exists>st1 st2. saveConversation t1 empty_store sid (Some q1) (Some a1) = Inr st1 \<and>
               saveConversation t2 st1 sid (Some q2) (Some a2) = Inr st2 \<and>
               msgs st2 = [\<lparr>msg_id = 1, sessionId = sid, question = q2, answer = a2,
                            msgSize = 500, createdAt = t2\<rparr>]))"
proof -
  have d: "distinct (map msg_id (msgs st))" using assms by (simp add: wf_store_def)
  have 1: "set (Msg_find_desc st sid) = {r \<in> set (msgs st). sessionId r = sid}"
    by (rule Msg_find_desc_set)
  have 2: "sorted (map createdAt (rev (Msg_find_desc st sid)))"
    by (rule Msg_find_desc_newest_first)
  note 3 = discardConversation_msgs [OF d, of sid]
  note 4 = Msg_find_desc_discard [OF d, of sid]
  have 5: "\<forall>xs r ys. Msg_find_desc st sid = xs @ r # ys \<and> 1024 < msgSize r \<longrightarrow>
            (\<exists>zs. xs = Msg_find_desc (discardConversation st sid) sid @ zs)"
    using discardConversation_oversized [OF d] by blast
  have 6: "\<forall>now q a. q \<noteq> [] \<and> a \<noteq> [] \<longrightarrow>
            saveConversation now st sid (Some q) (Some a) =
            Inr (discardConversation (Msg_save now st sid q a (length q + length a)) sid)"
    by (simp add: saveConversation_runs_discard)
  have 7: "\<forall>t1 t2 q1 a1 q2 a2.
            t1 < t2 \<and> q1 \<noteq> [] \<and> a1 \<noteq> [] \<and> q2 \<noteq> [] \<and> a2 \<noteq> [] \<and>
            length q1 + length a1 = 600 \<and> length q2 + length a2 = 500 \<longrightarrow>
            (\<exists>st1 st2. saveConversation t1 empty_store sid (Some q1) (Some a1) = Inr st1 \<and>
               saveConversation t2 st1 sid (Some q2) (Some a2) = Inr st2 \<and>
               msgs st2 = [\<lparr>msg_id = 1, sessionId = sid, question = q2, answer = a2,
                            msgSize = 500, createdAt = t2\<rparr>])"
    using scenario_600_500 [where sid = sid] by blast
  show ?thesis using 1 2 3 4 5 6 7 by (intro conjI)
qed

theorem discardConversation_trims_witness:
  "wf_store
     \<lparr>msgs = [\<lparr>msg_id = 0, sessionId = ''s'', question = ''a'', answer = ''b'', msgSize = 600, createdAt = 1\<rparr>,
       \<lparr>msg_id = 1, sessionId = ''t'', question = ''c'', answer = ''d'', msgSize = 2000, createdAt = 2\<rparr>,
       \<lparr>msg_id = 2, sessionId = ''s'', question = ''e'', answer = ''f'', msgSize = 2000, createdAt = 3\<rparr>,
       \<lparr>msg_id = 3, sessionId = ''s'', question = ''g'', answer = ''h'', msgSize = 100, createdAt = 4\<rparr>],
      events = [], next_id = 4\<rparr> \<and>
   msgs (discardConversation
     \<lparr>msgs = [\<lparr>msg_id = 0, sessionId = ''s'', question = ''a'', answer = ''b'', msgSize = 600, createdAt = 1\<rparr>,
       \<lparr>msg_id = 1, sessionId = ''t'', question = ''c'', answer = ''d'', msgSize = 2000, createdAt = 2\<rparr>,
       \<lparr>msg_id = 2, sessionId = ''s'', question = ''e'', answer = ''f'', msgSize = 2000, createdAt = 3\<rparr>,
       \<lparr>msg_id = 3, sessionId = ''s'', question = ''g'', answer = ''h'', msgSize = 100, createdAt = 4\<rparr>],
      events = [], next_id = 4\<rparr> ''s'') =
     [\<lparr>msg_id = 1, sessionId = ''t'', question = ''c'', answer = ''d'', msgSize = 2000, createdAt = 2\<rparr>,
      \<lparr>msg_id = 3, sessionId = ''s'', question = ''g'', answer = ''h'', msgSize = 100, createdAt = 4\<rparr>] \<and>
   Msg_find_desc
     \<lparr>msgs = [\<lparr>msg_id = 0, sessionId = ''s'', question = ''a'', answer = ''b'', msgSize = 600, createdAt = 1\<rparr>,
       \<lparr>msg_id = 1, sessionId = ''t'', question = ''c'', answer = ''d'', msgSize = 2000, createdAt = 2\<rparr>,
       \<lparr>msg_id = 2, sessionId = ''s'', question = ''e'', answer = ''f'', msgSize = 2000, createdAt = 3\<rparr>,
       \<lparr>msg_id = 3, sessionId = ''s'', question = ''g'', answer = ''h'', msgSize = 100, createdAt = 4\<rparr>],
      events = [], next_id = 4\<rparr> ''s'' =
     [\<lparr>msg_id = 3, sessionId = ''s'', question = ''g'', answer = ''h'', msgSize = 100, createdAt = 4\<rparr>] @
     \<lparr>msg_id = 2, sessionId = ''s'', question = ''e'', answer = ''f'', msgSize = 2000, createdAt = 3\<rparr> #
     [\<lparr>msg_id = 0, sessionId = ''s'', question = ''a'', answer = ''b'', msgSize = 600, createdAt = 1\<rparr>] \<and>
   1024 < msgSize \<lparr>msg_id = 2, sessionId = ''s'', question = ''e'', answer = ''f'', msgSize = 2000, createdAt = 3\<rparr> \<and>
   (\<exists>zs. [\<lparr>msg_id = 3, sessionId = ''s'', question = ''g'', answer = ''h'', msgSize = 100, createdAt = 4\<rparr>] =
      Msg_find_desc (discardConversation
     \<lparr>msgs = [\<lparr>msg_id = 0, sessionId = ''s'', question = ''a'', answer = ''b'', msgSize = 600, createdAt = 1\<rparr>,
       \<lparr>msg_id = 1, sessionId = ''t'', question = ''c'', answer = ''d'', msgSize = 2000, createdAt = 2\<rparr>,
       \<lparr>msg_id = 2, sessionId = ''s'', question = ''e'', answer = ''f'', msgSize = 2000, createdAt = 3\<rparr>,
       \<lparr>msg_id = 3, sessionId = ''s'', question = ''g'', answer = ''h'', msgSize = 100, createdAt = 4\<rparr>],
      events = [], next_id = 4\<rparr> ''s'') ''s'' @ zs) \<and>
   saveConversation 5
     \<lparr>msgs = [\<lparr>msg_id = 0, sessionId = ''s'', question = ''a'', answer = ''b'', msgSize = 600, createdAt = 1\<rparr>,
       \<lparr>msg_id = 1, sessionId = ''t'', question = ''c'', answer = ''d'', msgSize = 2000, createdAt = 2\<rparr>,
       \<lparr>msg_id = 2, sessionId = ''s'', question = ''e'', answer = ''f'', msgSize = 2000, createdAt = 3\<rparr>,
       \<lparr>msg_id = 3, sessionId = ''s'', question = ''g'', answer = ''h'', msgSize = 100, createdAt = 4\<rparr>],
      events = [], next_id = 4\<rparr> ''s'' (Some ''q'') (Some ''a'') =
     Inr (discardConversation (Msg_save 5
     \<lparr>msgs = [\<lparr>msg_id = 0, sessionId = ''s'', question = ''a'', answer = ''b'', msgSize = 600, createdAt = 1\<rparr>,
       \<lparr>msg_id = 1, sessionId = ''t'', question = ''c'', answer = ''d'', msgSize = 2000, createdAt = 2\<rparr>,
       \<lparr>msg_id = 2, sessionId = ''s'', question = ''e'', answer = ''f'', msgSize = 2000, createdAt = 3\<rparr>,
       \<lparr>msg_id = 3, sessionId = ''s'', question = ''g'', answer = ''h'', msgSize = 100, createdAt = 4\<rparr>],
      events = [], next_id = 4\<rparr> ''s'' ''q'' ''a'' (length ''q'' + length ''a'')) ''s'') \<and>
   (\<exists>st1 st2. saveConversation 1 empty_store ''s'' (Some (replicate 300 (CHR ''q'')))
                   (Some (replicate 300 (CHR ''a''))) = Inr st1 \<and>
      saveConversation 2 st1 ''s'' (Some (replicate 200 (CHR ''q'')))
                   (Some (replicate 300 (CHR ''a''))) = Inr st2 \<and>
      msgs st2 = [\<lparr>msg_id = 1, sessionId = ''s'', question = replicate 200 (CHR ''q''),
                   answer = replicate 300 (CHR ''a''), msgSize = 500, createdAt = 2\<rparr>])"
proof -
  let ?st = "\<lparr>msgs = [\<lparr>msg_id = 0, sessionId = ''s'', question = ''a'', answer = ''b'', msgSize = 600, createdAt = 1\<rparr>,
       \<lparr>msg_id = 1, sessionId = ''t'', question = ''c'', answer = ''d'', msgSize = 2000, createdAt = 2\<rparr>,
       \<lparr>msg_id = 2, sessionId = ''s'', question = ''e'', answer = ''f'', msgSize = 2000, createdAt = 3\<rparr>,
       \<lparr>msg_id = 3, sessionId = ''s'', question = ''g'', answer = ''h'', msgSize = 100, createdAt = 4\<rparr>],
      events = [], next_id = 4\<rparr>"
  have wf: "wf_store ?st" by (simp add: wf_store_def)
  note t = discardConversation_trims [OF wf, of "''s''"]
  have L: "Msg_find_desc ?st ''s'' =
     [\<lparr>msg_id = 3, sessionId = ''s'', question = ''g'', answer = ''h'', msgSize = 100, createdAt = 4\<rparr>] @
     \<lparr>msg_id = 2, sessionId = ''s'', question = ''e'', answer = ''f'', msgSize = 2000, createdAt = 3\<rparr> #
     [\<lparr>msg_id = 0, sessionId = ''s'', question = ''a'', answer = ''b'', msgSize = 600, createdAt = 1\<rparr>]"
    by (simp add: Msg_find_desc_def)
  have big: "1024 < msgSize \<lparr>msg_id = 2, sessionId = ''s'', question = ''e'', answer = ''f'', msgSize = 2000, createdAt = 3\<rparr>"
    by simp
  have m: "msgs (discardConversation ?st ''s'') =
     [\<lparr>msg_id = 1, sessionId = ''t'', question = ''c'', answer = ''d'', msgSize = 2000, createdAt = 2\<rparr>,
      \<lparr>msg_id = 3, sessionId = ''s'', question = ''g'', answer = ''h'', msgSize = 100, createdAt = 4\<rparr>]"
    using t [THEN conjunct2, THEN conjunct2, THEN conjunct1] unfolding L by simp
  have o: "\<exists>zs. [\<lparr>msg_id = 3, sessionId = ''s'', question = ''g'', answer = ''h'', msgSize = 100, createdAt = 4\<rparr>] =
      Msg_find_desc (discardConversation ?st ''s'') ''s'' @ zs"
    using t [THEN conjunct2, THEN conjunct2, THEN conjunct2, THEN conjunct2, THEN conjunct1,
             rule_format, OF conjI [OF L big]] .
  have ne: "''q'' \<noteq> [] \<and> ''a'' \<noteq> []" by simp
  have sv: "saveConversation 5 ?st ''s'' (Some ''q'') (Some ''a'') =
     Inr (discardConversation (Msg_save 5 ?st ''s'' ''q'' ''a'' (length ''q'' + length ''a'')) ''s'')"
    using t [THEN conjunct2, THEN conjunct2, THEN conjunct2, THEN conjunct2, THEN conjunct2,
             THEN conjunct1, rule_format, OF ne] .
  have pre: "(1::int) < 2 \<and> replicate 300 (CHR ''q'') \<noteq> [] \<and> replicate 300 (CHR ''a'') \<noteq> [] \<and>
        replicate 200 (CHR ''q'') \<noteq> [] \<and> replicate 300 (CHR ''a'') \<noteq> [] \<and>
        length (replicate 300 (CHR ''q'')) + length (replicate 300 (CHR ''a'')) = 600 \<and>
        length (replicate 200 (CHR ''q'')) + length (replicate 300 (CHR ''a'')) = 500"
    by simp
  have s: "(\<exists>st1 st2. saveConversation 1 empty_store ''s'' (Some (replicate 300 (CHR ''q'')))
                   (Some (replicate 300 (CHR ''a''))) = Inr st1 \<and>
      saveConversation 2 st1 ''s'' (Some (replicate 200 (CHR ''q'')))
                   (Some (replicate 300 (CHR ''a''))) = Inr st2 \<and>
      msgs st2 = [\<lparr>msg_id = 1, sessionId = ''s'', question = replicate 200 (CHR ''q''),
                   answer = replicate 300 (CHR ''a''), msgSize = 500, createdAt = 2\<rparr>])"
    using t [THEN conjunct2, THEN conjunct2, THEN conjunct2, THEN conjunct2, THEN conjunct2,
             THEN conjunct2, rule_format, OF pre] .
  show ?thesis by (intro conjI wf m L big o sv s)
qed

subsection \<open>The budget after an append\<close>

text \<open>
  C1. After a successful \<^verbatim>\<open>saveConversation\<close> on a store with well-formed ids, the
  sizes of the session's remaining turns sum to at most 1024. No exception is needed
  for an oversized turn: it is deleted with the rest. When the turn just appended is
  itself over 1024 and is the session's newest, no turn of the session remains, so every
  older turn is removed.
\<close>

theorem saveConversation_budget:
  assumes "wf_store st" and "saveConversation now st sid q a = Inr st'"
  shows "sum_list (map msgSize (filter (\<lambda>r. sessionId r = sid) (msgs st'))) \<le> 1024 \<and>
         (\<forall>qs ans. q = Some qs \<and> a = Some ans \<and> 1024 < length qs + length ans \<and>
              (\<forall>r\<in>set (msgs st). sessionId r = sid \<longrightarrow> createdAt r < now) \<longrightarrow>
            filter (\<lambda>r. sessionId r = sid) (msgs st') = [])"
proof
  from assms(2) obtain qs ans where qa: "q = Some qs" "a = Some ans" "qs \<noteq> []" "ans \<noteq> []"
    and st': "st' = discardConversation (Msg_save now st sid qs ans (length qs + length ans)) sid"
    by (auto simp: saveConversation_def split: option.splits if_splits)
  have "distinct (map msg_id (msgs (Msg_save now st sid qs ans (length qs + length ans))))"
    using wf_store_Msg_save [OF assms(1)] by (simp add: wf_store_def)
  then show "sum_list (map msgSize (filter (\<lambda>r. sessionId r = sid) (msgs st'))) \<le> 1024"
    unfolding st' by (rule discardConversation_sum)
next
  show "\<forall>qs ans. q = Some qs \<and> a = Some ans \<and> 1024 < length qs + length ans \<and>
              (\<forall>r\<in>set (msgs st). sessionId r = sid \<longrightarrow> createdAt r < now) \<longrightarrow>
            filter (\<lambda>r. sessionId r = sid) (msgs st') = []"
    using saveConversation_oversized [OF assms(1)] assms(2) by blast
qed

theorem saveConversation_budget_witness:
  "wf_store \<lparr>msgs = [\<lparr>msg_id = 0, sessionId = ''s'', question = ''hi'', answer = ''yo'',
                        msgSize = 4, createdAt = 1\<rparr>], events = [], next_id = 1\<rparr> \<and>
   saveConversation 2
     \<lparr>msgs = [\<lparr>msg_id = 0, sessionId = ''s'', question = ''hi'', answer = ''yo'',
                msgSize = 4, createdAt = 1\<rparr>], events = [], next_id = 1\<rparr>
     ''s'' (Some ''q'') (Some (replicate 1024 (CHR ''a''))) =
     Inr \<lparr>msgs = [], events = [], next_id = 2\<rparr> \<and>
   sum_list (map msgSize (filter (\<lambda>r. sessionId r = ''s'')
     (msgs \<lparr>msgs = [], events = [], next_id = 2\<rparr>))) \<le> 1024 \<and>
   filter (\<lambda>r. sessionId r = ''s'') (msgs \<lparr>msgs = [], events = [], next_id = 2\<rparr>) = []"
proof -
  let ?st = "\<lparr>msgs = [\<lparr>msg_id = 0, sessionId = ''s'', question = ''hi'', answer = ''yo'',
                        msgSize = 4, createdAt = 1\<rparr>], events = [], next_id = 1\<rparr>"
  let ?st' = "\<lparr>msgs = [], events = [], next_id = 2\<rparr>"
  have wf: "wf_store ?st" by (simp add: wf_store_def)
  have run: "saveConversation 2 ?st ''s'' (Some ''q'') (Some (replicate 1024 (CHR ''a''))) = Inr ?st'"
    by (simp add: saveConversation_def discardConversation_def Msg_save_def Msg_find_desc_def)
  have clock: "\<forall>r\<in>set (msgs ?st). sessionId r = ''s'' \<longrightarrow> createdAt r < 2" by simp
  have big: "1024 < length ''q'' + length (replicate 1024 (CHR ''a''))" by simp
  from saveConversation_budget [OF wf run] clock big
  have "sum_list (map msgSize (filter (\<lambda>r. sessionId r = ''s'') (msgs ?st'))) \<le> 1024 \<and>
        filter (\<lambda>r. sessionId r = ''s'') (msgs ?st') = []"
    by blast
  with wf run show ?thesis by blast
qed


section \<open>The assembled prompt\<close>

lemma foldl_push_row:
  "foldl push_row acc rows =
   acc @ concat (map (\<lambda>row. [\<lparr>role = User, content = question row\<rparr>,
                               \<lparr>role = Assistant, content = answer row\<rparr>]) rows)"
  by (induction rows arbitrary: acc) (simp_all add: push_row_def)

text \<open>
  C9. The prompt is the session's stored turns in non-decreasing order of \<open>createdAt\<close>,
  each as a user entry with the question followed by an assistant entry with the
  answer, and then one user entry with the new question. Every stored turn of the
  session is there: the prompt has two entries per turn and one more.
\<close>

theorem buildConversation_prompt:
  "buildConversation st sid q =
     concat (map (\<lambda>row. [\<lparr>role = User, content = question row\<rparr>,
                           \<lparr>role = Assistant, content = answer row\<rparr>]) (Msg_find_asc st sid)) @
     [\<lparr>role = User, content = q\<rparr>] \<and>
   sorted (map createdAt (Msg_find_asc st sid)) \<and>
   mset (Msg_find_asc st sid) = mset (filter (\<lambda>r. sessionId r = sid) (msgs st)) \<and>
   length (buildConversation st sid q) =
     2 * length (filter (\<lambda>r. sessionId r = sid) (msgs st)) + 1"
proof (intro conjI)
  show "buildConversation st sid q =
     concat (map (\<lambda>row. [\<lparr>role = User, content = question row\<rparr>,
                           \<lparr>role = Assistant, content = answer row\<rparr>]) (Msg_find_asc st sid)) @
     [\<lparr>role = User, content = q\<rparr>]"
    by (simp add: buildConversation_def foldl_push_row)
  show "sorted (map createdAt (Msg_find_asc st sid))"
    by (simp add: Msg_find_asc_def)
  show "mset (Msg_find_asc st sid) = mset (filter (\<lambda>r. sessionId r = sid) (msgs st))"
    by (simp add: Msg_find_asc_def)
  have "length (concat (map (\<lambda>row. [\<lparr>role = User, content = question row\<rparr>,
                           \<lparr>role = Assistant, content = answer row\<rparr>]) rows)) = 2 * length rows"
    for rows :: "msg list"
    by (induction rows) simp_all
  then show "length (buildConversation st sid q) =
     2 * length (filter (\<lambda>r. sessionId r = sid) (msgs st)) + 1"
    by (simp add: buildConversation_def foldl_push_row Msg_find_asc_def)
qed

section \<open>Running the routes\<close>

lemmas run_defs = webhook_def handleReply_def received_def faultless_def answering_def
  record_event_def Event_save_def Event_findOne_def session_of_def saveConversation_def
  discardConversation_def Msg_save_def Msg_find_desc_def Msg_find_asc_def buildConversation_def
  push_row_def query_def reply_def trim_def startsWith_def whitespace_def empty_store_def Let_def

subsection \<open>Session ids\<close>

text \<open>
  C10. The session id is the chat id followed by the sender id, so the pairs
  ("ab", "c") and ("a", "bc") get the same one. A message from the first pair stores its
  turn under "abc"; the prompt built for a later message from the second pair starts
  with that turn, and its own turn is stored under "abc" too.
\<close>

theorem session_of_collision:
  "(''ab'', ''c'') \<noteq> (''a'', ''bc'') \<and>
   session_of ''ab'' ''c'' = session_of ''a'' ''bc'' \<and>
   webhook cfg (faultless 1 (answering ''yo''))
     (received ''e1'' ''m1'' ''ab'' ''c'' ''p2p'' ''text'' (Json (Some ''hi'')))
     \<lparr>db = empty_store, trace = []\<rparr> =
   (Inr (Code 1 (Some ''Duplicate event ID'')),
    \<lparr>db = \<lparr>msgs = [\<lparr>msg_id = 0, sessionId = ''abc'', question = ''hi'', answer = ''yo'',
                      msgSize = 4, createdAt = 1\<rparr>],
            events = [\<lparr>event_id = ''e1'', ev_content = None\<rparr>], next_id = 1\<rparr>,
      trace = [Fetch (Prompt [\<lparr>role = User, content = ''hi''\<rparr>]), Reply ''m1'' (Some ''yo'')]\<rparr>) \<and>
   webhook cfg (faultless 2 (answering ''ok''))
     (received ''e2'' ''m2'' ''a'' ''bc'' ''group'' ''text'' (Json (Some ''more'')))
     \<lparr>db = \<lparr>msgs = [\<lparr>msg_id = 0, sessionId = ''abc'', question = ''hi'', answer = ''yo'',
                      msgSize = 4, createdAt = 1\<rparr>],
            events = [\<lparr>event_id = ''e1'', ev_content = None\<rparr>], next_id = 1\<rparr>,
      trace = []\<rparr> =
   (Inr (Code 1 (Some ''Duplicate event ID'')),
    \<lparr>db = \<lparr>msgs = [\<lparr>msg_id = 0, sessionId = ''abc'', question = ''hi'', answer = ''yo'',
                      msgSize = 4, createdAt = 1\<rparr>,
                    \<lparr>msg_id = 1, sessionId = ''abc'', question = ''more'', answer = ''ok'',
                      msgSize = 6, createdAt = 2\<rparr>],
            events = [\<lparr>event_id = ''e1'', ev_content = None\<rparr>,
                      \<lparr>event_id = ''e2'', ev_content = None\<rparr>], next_id = 2\<rparr>,
      trace = [Fetch (Prompt [\<lparr>role = User, content = ''hi''\<rparr>,
                              \<lparr>role = Assistant, content = ''yo''\<rparr>,
                              \<lparr>role = User, content = ''more''\<rparr>]),
               Reply ''m2'' (Some ''ok'')]\<rparr>)"
proof (intro conjI)
  show "(''ab'', ''c'') \<noteq> (''a'', ''bc'')" by simp
  show "session_of ''ab'' ''c'' = session_of ''a'' ''bc''" by (simp add: session_of_def)
  show "webhook cfg (faultless 1 (answering ''yo''))
     (received ''e1'' ''m1'' ''ab'' ''c'' ''p2p'' ''text'' (Json (Some ''hi'')))
     \<lparr>db = empty_store, trace = []\<rparr> =
   (Inr (Code 1 (Some ''Duplicate event ID'')),
    \<lparr>db = \<lparr>msgs = [\<lparr>msg_id = 0, sessionId = ''abc'', question = ''hi'', answer = ''yo'',
                      msgSize = 4, createdAt = 1\<rparr>],
            events = [\<lparr>event_id = ''e1'', ev_content = None\<rparr>], next_id = 1\<rparr>,
      trace = [Fetch (Prompt [\<lparr>role = User, content = ''hi''\<rparr>]), Reply ''m1'' (Some ''yo'')]\<rparr>)"
    by (simp add: run_defs)
  show "webhook cfg (faultless 2 (answering ''ok''))
     (received ''e2'' ''m2'' ''a'' ''bc'' ''group'' ''text'' (Json (Some ''more'')))
     \<lparr>db = \<lparr>msgs = [\<lparr>msg_id = 0, sessionId = ''abc'', question = ''hi'', answer = ''yo'',
                      msgSize = 4, createdAt = 1\<rparr>],
            events = [\<lparr>event_id = ''e1'', ev_content = None\<rparr>], next_id = 1\<rparr>,
      trace = []\<rparr> =
   (Inr (Code 1 (Some ''Duplicate event ID'')),
    \<lparr>db = \<lparr>msgs = [\<lparr>msg_id = 0, sessionId = ''abc'', question = ''hi'', answer = ''yo'',
                      msgSize = 4, createdAt = 1\<rparr>,
                    \<lparr>msg_id = 1, sessionId = ''abc'', question = ''more'', answer = ''ok'',
                      msgSize = 6, createdAt = 2\<rparr>],
            events = [\<lparr>event_id = ''e1'', ev_content = None\<rparr>,
                      \<lparr>event_id = ''e2'', ev_content = None\<rparr>], next_id = 2\<rparr>,
      trace = [Fetch (Prompt [\<lparr>role = User, content = ''hi''\<rparr>,
                              \<lparr>role = Assistant, content = ''yo''\<rparr>,
                              \<lparr>role = User, content = ''more''\<rparr>]),
               Reply ''m2'' (Some ''ok'')]\<rparr>)"
    by (simp add: run_defs)
qed

subsection \<open>The ledger of seen events\<close>

text \<open>
  C3. Recording an event id that the ledger does not hold inserts it; recording it
  again reports a duplicate and changes nothing, so the ledger holds the first record
  and no other for that id. A duplicate-key error is an outcome, not an exception, and
  the route answers it with code 1; an error with any other code is rethrown, by the
  block and by the route.
\<close>

theorem record_event_idempotent:
  assumes fresh: "eid \<notin> set (map event_id (events st))"
  shows "\<exists>st'. record_event None st \<lparr>event_id = eid, ev_content = c\<rparr> = Inr (Inserted, st') \<and>
           record_event None st' \<lparr>event_id = eid, ev_content = c'\<rparr> = Inr (Duplicate, st') \<and>
           filter (\<lambda>ev. event_id ev = eid) (events st') = [\<lparr>event_id = eid, ev_content = c\<rparr>] \<and>
           (\<forall>s ev. record_event (Some (MongoError 11000)) s ev = Inr (Duplicate, s)) \<and>
           (\<forall>err s ev. error_code err \<noteq> Some 11000 \<longrightarrow> record_event (Some err) s ev = Inl err) \<and>
           (\<forall>cfg e w mid chat sender ct mt body err.
              Event_findOne (db w) eid = None \<and> save_fault1 e = Some err \<longrightarrow>
              webhook cfg e (received eid mid chat sender ct mt body) w =
                (if error_code err = Some 11000 then Inr (Code 1 (Some ''Duplicate event ID''))
                 else Inl err, w))"
proof -
  let ?st' = "st\<lparr>events := events st @ [\<lparr>event_id = eid, ev_content = c\<rparr>]\<rparr>"
  have 1: "record_event None st \<lparr>event_id = eid, ev_content = c\<rparr> = Inr (Inserted, ?st')"
    using fresh by (simp add: record_event_def Event_save_def)
  have 2: "record_event None ?st' \<lparr>event_id = eid, ev_content = c'\<rparr> = Inr (Duplicate, ?st')"
    by (simp add: record_event_def Event_save_def)
  have "filter (\<lambda>ev. event_id ev = eid) (events st) = []"
    using fresh by (auto simp: filter_empty_conv)
  then have 3: "filter (\<lambda>ev. event_id ev = eid) (events ?st') = [\<lparr>event_id = eid, ev_content = c\<rparr>]"
    by simp
  have 4: "\<forall>s ev. record_event (Some (MongoError 11000)) s ev = Inr (Duplicate, s)"
    by (simp add: record_event_def Event_save_def)
  have 5: "\<forall>err s ev. error_code err \<noteq> Some 11000 \<longrightarrow> record_event (Some err) s ev = Inl err"
    by (simp add: record_event_def Event_save_def)
  have 6: "\<forall>cfg e w mid chat sender ct mt body err.
              Event_findOne (db w) eid = None \<and> save_fault1 e = Some err \<longrightarrow>
              webhook cfg e (received eid mid chat sender ct mt body) w =
                (if error_code err = Some 11000 then Inr (Code 1 (Some ''Duplicate event ID''))
                 else Inl err, w)"
    by (simp add: webhook_def received_def record_event_def Event_save_def)
  show ?thesis
    by (rule exI [of _ ?st']) (intro conjI 1 2 3 4 5 6)
qed

theorem record_event_idempotent_witness:
  "''e1'' \<notin> set (map event_id (events empty_store)) \<and>
   record_event None empty_store \<lparr>event_id = ''e1'', ev_content = None\<rparr> =
     Inr (Inserted, \<lparr>msgs = [], events = [\<lparr>event_id = ''e1'', ev_content = None\<rparr>], next_id = 0\<rparr>) \<and>
   record_event None \<lparr>msgs = [], events = [\<lparr>event_id = ''e1'', ev_content = None\<rparr>], next_id = 0\<rparr>
     \<lparr>event_id = ''e1'', ev_content = Some ''hi''\<rparr> =
     Inr (Duplicate, \<lparr>msgs = [], events = [\<lparr>event_id = ''e1'', ev_content = None\<rparr>], next_id = 0\<rparr>) \<and>
   error_code (MongoError 50) \<noteq> Some 11000 \<and>
   record_event (Some (MongoError 50)) empty_store \<lparr>event_id = ''e1'', ev_content = None\<rparr> =
     Inl (MongoError 50) \<and>
   Event_findOne (db \<lparr>db = empty_store, trace = []\<rparr>) ''e1'' = None \<and>
   save_fault1 \<lparr>clock = 1, fetch_answer = Rejected, save_fault1 = Some (MongoError 11000),
                save_fault2 = None\<rparr> = Some (MongoError 11000) \<and>
   webhook \<lparr>LARK_APP_ID = ''cli_a'', LARK_APP_SECRET = ''s''\<rparr>
     \<lparr>clock = 1, fetch_answer = Rejected, save_fault1 = Some (MongoError 11000), save_fault2 = None\<rparr>
     (received ''e1'' ''m1'' ''c1'' ''u1'' ''p2p'' ''text'' (Json (Some ''hi'')))
     \<lparr>db = empty_store, trace = []\<rparr> =
     (Inr (Code 1 (Some ''Duplicate event ID'')), \<lparr>db = empty_store, trace = []\<rparr>)"
proof -
  have fresh: "''e1'' \<notin> set (map event_id (events empty_store))"
    by (simp add: empty_store_def)
  from record_event_idempotent [OF fresh, of None "Some ''hi''"]
  obtain st' where
    a: "record_event None empty_store \<lparr>event_id = ''e1'', ev_content = None\<rparr> = Inr (Inserted, st')"
    and b: "record_event None st' \<lparr>event_id = ''e1'', ev_content = Some ''hi''\<rparr> = Inr (Duplicate, st')"
    and e: "\<forall>err s ev. error_code err \<noteq> Some 11000 \<longrightarrow> record_event (Some err) s ev = Inl err"
    and r: "\<forall>cfg e w mid chat sender ct mt body err.
              Event_findOne (db w) ''e1'' = None \<and> save_fault1 e = Some err \<longrightarrow>
              webhook cfg e (received ''e1'' mid chat sender ct mt body) w =
                (if error_code err = Some 11000 then Inr (Code 1 (Some ''Duplicate event ID''))
                 else Inl err, w)"
    by blast
  have f1: "Event_findOne (db \<lparr>db = empty_store, trace = []\<rparr>) ''e1'' = None"
    by (simp add: Event_findOne_def empty_store_def)
  have f2: "save_fault1 \<lparr>clock = 1, fetch_answer = Rejected, save_fault1 = Some (MongoError 11000),
                save_fault2 = None\<rparr> = Some (MongoError 11000)"
    by simp
  from r [rule_format, OF conjI [OF f1 f2]] have w:
    "webhook \<lparr>LARK_APP_ID = ''cli_a'', LARK_APP_SECRET = ''s''\<rparr>
     \<lparr>clock = 1, fetch_answer = Rejected, save_fault1 = Some (MongoError 11000), save_fault2 = None\<rparr>
     (received ''e1'' ''m1'' ''c1'' ''u1'' ''p2p'' ''text'' (Json (Some ''hi'')))
     \<lparr>db = empty_store, trace = []\<rparr> =
     (Inr (Code 1 (Some ''Duplicate event ID'')), \<lparr>db = empty_store, trace = []\<rparr>)"
    by simp
  have st': "st' = \<lparr>msgs = [], events = [\<lparr>event_id = ''e1'', ev_content = None\<rparr>], next_id = 0\<rparr>"
    using a by (simp add: record_event_def Event_save_def empty_store_def)
  have ne: "error_code (MongoError 50) \<noteq> Some 11000" by simp
  from e ne have
    "record_event (Some (MongoError 50)) empty_store \<lparr>event_id = ''e1'', ev_content = None\<rparr> =
       Inl (MongoError 50)" by blast
  with fresh a b ne f1 f2 w show ?thesis unfolding st' by (intro conjI)
qed

section \<open>The secondary variant\<close>

text \<open>
  C8. \<^verbatim>\<open>/teams-webhook\<close> answers 400 with an error body when \<^verbatim>\<open>text\<close> or
  \<^verbatim>\<open>sessionId\<close> is missing or empty, 200 with the generated text as \<^verbatim>\<open>message\<close> when
  \<^verbatim>\<open>queryFlowise\<close> returns, and 500 with an error body when it throws.
\<close>

theorem teams_webhook_responses:
  "(falsy txt \<or> falsy sid \<longrightarrow>
      teams_webhook f txt sid tr =
        (\<lparr>status = 400,
          reply_body = ErrorBody (''Invalid input. '' @ [CHR 0x27] @ ''text'' @ [CHR 0x27] @
            '' and '' @ [CHR 0x27] @ ''sessionId'' @ [CHR 0x27] @ '' are required.'')\<rparr>, tr)) \<and>
   (\<forall>t ans tr'. txt = Some t \<and> \<not> falsy txt \<and> \<not> falsy sid \<and>
        queryFlowise f t sid tr = (Inr ans, tr') \<longrightarrow>
      teams_webhook f txt sid tr = (\<lparr>status = 200, reply_body = MessageBody ans\<rparr>, tr')) \<and>
   (\<forall>t err tr'. txt = Some t \<and> \<not> falsy txt \<and> \<not> falsy sid \<and>
        queryFlowise f t sid tr = (Inl err, tr') \<longrightarrow>
      teams_webhook f txt sid tr =
        (\<lparr>status = 500,
          reply_body = ErrorBody ''Internal Server Error. Please try again later.''\<rparr>, tr'))"
  by (simp add: teams_webhook_def)

theorem teams_webhook_responses_witness:
  "falsy None \<and> fst (teams_webhook (answering ''yo'') None (Some ''s1'') []) =
        \<lparr>status = 400,
          reply_body = ErrorBody (''Invalid input. '' @ [CHR 0x27] @ ''text'' @ [CHR 0x27] @
            '' and '' @ [CHR 0x27] @ ''sessionId'' @ [CHR 0x27] @ '' are required.'')\<rparr> \<and>
   \<not> falsy (Some ''hi'') \<and> \<not> falsy (Some ''s1'') \<and>
   queryFlowise (answering ''yo'') ''hi'' (Some ''s1'') [] = (Inr ''yo'', [Fetch (Flowise ''hi'' ''s1'')]) \<and>
   teams_webhook (answering ''yo'') (Some ''hi'') (Some ''s1'') [] =
     (\<lparr>status = 200, reply_body = MessageBody ''yo''\<rparr>, [Fetch (Flowise ''hi'' ''s1'')]) \<and>
   queryFlowise Rejected ''hi'' (Some ''s1'') [] = (Inl FetchError, [Fetch (Flowise ''hi'' ''s1'')]) \<and>
   teams_webhook Rejected (Some ''hi'') (Some ''s1'') [] =
     (\<lparr>status = 500, reply_body = ErrorBody ''Internal Server Error. Please try again later.''\<rparr>,
      [Fetch (Flowise ''hi'' ''s1'')])"
proof -
  have f: "falsy None" "\<not> falsy (Some ''hi'')" "\<not> falsy (Some ''s1'')"
    by (simp_all add: falsy_def)
  have q1: "queryFlowise (answering ''yo'') ''hi'' (Some ''s1'') [] =
            (Inr ''yo'', [Fetch (Flowise ''hi'' ''s1'')])"
    by (simp add: queryFlowise_def answering_def falsy_def)
  have q2: "queryFlowise Rejected ''hi'' (Some ''s1'') [] =
            (Inl FetchError, [Fetch (Flowise ''hi'' ''s1'')])"
    by (simp add: queryFlowise_def)
  note t1 = teams_webhook_responses [of None "Some ''s1''" "answering ''yo''" "[]"]
  note t2 = teams_webhook_responses [of "Some ''hi''" "Some ''s1''" "answering ''yo''" "[]"]
  note t3 = teams_webhook_responses [of "Some ''hi''" "Some ''s1''" Rejected "[]"]
  have a: "fst (teams_webhook (answering ''yo'') None (Some ''s1'') []) =
        \<lparr>status = 400,
          reply_body = ErrorBody (''Invalid input. '' @ [CHR 0x27] @ ''text'' @ [CHR 0x27] @
            '' and '' @ [CHR 0x27] @ ''sessionId'' @ [CHR 0x27] @ '' are required.'')\<rparr>"
    using t1 f by simp
  have b: "teams_webhook (answering ''yo'') (Some ''hi'') (Some ''s1'') [] =
     (\<lparr>status = 200, reply_body = MessageBody ''yo''\<rparr>, [Fetch (Flowise ''hi'' ''s1'')])"
    using t2 [THEN conjunct2, THEN conjunct1] f q1 by blast
  have c: "teams_webhook Rejected (Some ''hi'') (Some ''s1'') [] =
     (\<lparr>status = 500, reply_body = ErrorBody ''Internal Server Error. Please try again later.''\<rparr>,
      [Fetch (Flowise ''hi'' ''s1'')])"
    using t3 [THEN conjunct2, THEN conjunct2] f q2 by blast
  show ?thesis by (intro conjI f a b c q1 q2)
qed


section \<open>The downstream query\<close>

lemma queryFlowise_Responded:
  "fst (queryFlowise (Responded r) q sid tr) =
     (if \<not> ok r then Inl (JsError (''Flowise API returned an error: '' @ statusText r))
      else case generated_text r of
             Some t \<Rightarrow> Inr t
           | None \<Rightarrow> if body r = None then Inl SyntaxError
                      else Inl (JsError ''Invalid response from Flowise API''))"
  by (auto simp: queryFlowise_def generated_text_def falsy_def Let_def
           split: option.splits json.splits)

text \<open>
  C6, as stated, fails for the primary variant: \<^verbatim>\<open>query\<close> tests neither the status
  nor the shape. On a 500 answer whose JSON body has no \<^verbatim>\<open>text\<close> it returns the parsed
  body and does not throw.
\<close>

theorem query_accepts_any_response:
  "\<not> ok \<lparr>ok = False, statusText = ''Internal Server Error'', body = Some (JObject None)\<rparr> \<and>
   generated_text \<lparr>ok = False, statusText = ''Internal Server Error'', body = Some (JObject None)\<rparr> = None \<and>
   query (Responded \<lparr>ok = False, statusText = ''Internal Server Error'', body = Some (JObject None)\<rparr>)
     (Prompt [\<lparr>role = User, content = ''hi''\<rparr>]) [] =
     (Inr (JObject None), [Fetch (Prompt [\<lparr>role = User, content = ''hi''\<rparr>])])"
  by (simp add: query_def generated_text_def)

text \<open>
  C6, amended. \<^verbatim>\<open>queryFlowise\<close> of the secondary variant throws exactly when the
  fetch is rejected, the status is not a success, or the response carries no non-empty
  \<^verbatim>\<open>text\<close> (a body that is not JSON included); on a success status with a non-empty
  \<^verbatim>\<open>text\<close> it returns that text. \<^verbatim>\<open>query\<close> of the primary variant throws only when
  the fetch is rejected or the body is not JSON, and otherwise returns the parsed body,
  whatever the status.
\<close>

theorem downstream_query_failures:
  "(isl (fst (queryFlowise f q sid tr)) \<longleftrightarrow>
      (case f of Rejected \<Rightarrow> True | Responded r \<Rightarrow> \<not> ok r \<or> generated_text r = None)) \<and>
   (\<forall>r t. f = Responded r \<and> ok r \<and> generated_text r = Some t \<longrightarrow>
      fst (queryFlowise f q sid tr) = Inr t) \<and>
   (isl (fst (query f data tr)) \<longleftrightarrow>
      (case f of Rejected \<Rightarrow> True | Responded r \<Rightarrow> body r = None)) \<and>
   (\<forall>r j. f = Responded r \<and> body r = Some j \<longrightarrow> fst (query f data tr) = Inr j)"
proof (intro conjI)
  show "isl (fst (queryFlowise f q sid tr)) \<longleftrightarrow>
      (case f of Rejected \<Rightarrow> True | Responded r \<Rightarrow> \<not> ok r \<or> generated_text r = None)"
  proof (cases f)
    case Rejected
    then show ?thesis by (simp add: queryFlowise_def Let_def)
  next
    case (Responded r)
    then show ?thesis by (simp add: queryFlowise_Responded split: option.splits)
  qed
  show "\<forall>r t. f = Responded r \<and> ok r \<and> generated_text r = Some t \<longrightarrow>
      fst (queryFlowise f q sid tr) = Inr t"
    by (simp add: queryFlowise_Responded)
  show "isl (fst (query f data tr)) \<longleftrightarrow>
      (case f of Rejected \<Rightarrow> True | Responded r \<Rightarrow> body r = None)"
    by (simp add: query_def split: fetched.splits option.splits)
  show "\<forall>r j. f = Responded r \<and> body r = Some j \<longrightarrow> fst (query f data tr) = Inr j"
    by (simp add: query_def)
qed

theorem downstream_query_failures_witness:
  "ok \<lparr>ok = True, statusText = ''OK'', body = Some (JObject (Some ''yo''))\<rparr> \<and>
   generated_text \<lparr>ok = True, statusText = ''OK'', body = Some (JObject (Some ''yo''))\<rparr> = Some ''yo'' \<and>
   fst (queryFlowise (answering ''yo'') ''hi'' (Some ''s1'') []) = Inr ''yo'' \<and>
   fst (query (answering ''yo'') (Prompt []) []) = Inr (JObject (Some ''yo'')) \<and>
   \<not> ok \<lparr>ok = False, statusText = ''Bad Gateway'', body = Some (JObject (Some ''yo''))\<rparr> \<and>
   isl (fst (queryFlowise
     (Responded \<lparr>ok = False, statusText = ''Bad Gateway'', body = Some (JObject (Some ''yo''))\<rparr>)
     ''hi'' (Some ''s1'') [])) \<and>
   \<not> isl (fst (query
     (Responded \<lparr>ok = False, statusText = ''Bad Gateway'', body = Some (JObject (Some ''yo''))\<rparr>)
     (Prompt []) []))"
proof -
  let ?good = "\<lparr>ok = True, statusText = ''OK'', body = Some (JObject (Some ''yo''))\<rparr>"
  let ?bad = "\<lparr>ok = False, statusText = ''Bad Gateway'', body = Some (JObject (Some ''yo''))\<rparr>"
  have g: "ok ?good" "generated_text ?good = Some ''yo''" "body ?good = Some (JObject (Some ''yo''))"
    by (simp_all add: generated_text_def)
  have b: "\<not> ok ?bad" "body ?bad = Some (JObject (Some ''yo''))" by simp_all
  note t1 = downstream_query_failures [of "Responded ?good" "''hi''" "Some ''s1''" "[]" "Prompt []"]
  note t2 = downstream_query_failures [of "Responded ?bad" "''hi''" "Some ''s1''" "[]" "Prompt []"]
  have 1: "fst (queryFlowise (answering ''yo'') ''hi'' (Some ''s1'') []) = Inr ''yo''"
    using t1 [THEN conjunct2, THEN conjunct1] g unfolding answering_def by blast
  have 2: "fst (query (answering ''yo'') (Prompt []) []) = Inr (JObject (Some ''yo''))"
    using t1 [THEN conjunct2, THEN conjunct2, THEN conjunct2] g unfolding answering_def by blast
  have 3: "isl (fst (queryFlowise (Responded ?bad) ''hi'' (Some ''s1'') []))"
    using t2 [THEN conjunct1] b by simp
  have 4: "\<not> isl (fst (query (Responded ?bad) (Prompt []) []))"
    using t2 [THEN conjunct2, THEN conjunct2, THEN conjunct1] b by simp
  show ?thesis by (intro conjI g(1) g(2) b(1) 1 2 3 4)
qed

subsection \<open>When the query fails\<close>

lemma query_trace: "snd (query f data tr) = tr @ [Fetch data]"
  by (simp add: query_def split: fetched.splits option.splits)

lemma query_isl_any:
  "isl (fst (query f data tr)) \<Longrightarrow> isl (fst (query f data' tr'))"
  by (simp add: query_def split: fetched.splits option.splits)

lemma handleReply_query_fails:
  assumes fails: "isl (fst (query (fetch_answer e) data tr))"
    and conv: "\<not> startsWith ''/'' (trim (trim (replace_first ''@_user_1'' [] txt)))"
  shows "handleReply e (Some txt) sid mid eid w =
         (Inl (JsError ''Question or answer is missing or empty.''),
          w\<lparr>trace := trace w @
             [Fetch (Prompt (buildConversation (db w) sid
                (trim (replace_first ''@_user_1'' [] txt))))]\<rparr>)"
proof -
  let ?q = "trim (replace_first ''@_user_1'' [] txt)"
  let ?p = "Prompt (buildConversation (db w) sid ?q)"
  have "isl (fst (query (fetch_answer e) ?p (trace w)))"
    using fails by (rule query_isl_any)
  then obtain err where "fst (query (fetch_answer e) ?p (trace w)) = Inl err"
    by (cases "fst (query (fetch_answer e) ?p (trace w))") auto
  then show ?thesis
    using conv by (simp add: handleReply_def Let_def query_trace saveConversation_def)
qed

lemma Event_findOne_None:
  "Event_findOne st eid = None \<longleftrightarrow> eid \<notin> set (map event_id (events st))"
  by (auto simp: Event_findOne_def find_None_iff)

lemma buildConversation_events:
  "buildConversation (st\<lparr>events := evs\<rparr>) sid q = buildConversation st sid q"
  by (simp add: buildConversation_def Msg_find_asc_def)

text \<open>
  C7, as stated, fails for the primary variant. With the endpoint unreachable, a text
  message in a direct chat ends in a throw out of the route: the error is the one
  \<^verbatim>\<open>saveConversation\<close> raises for the missing answer, not the failure of the query; the
  trace holds the one fetch and no reply to the user, and no turn is stored.
\<close>

theorem webhook_query_failure_throws:
  "webhook \<lparr>LARK_APP_ID = ''cli_a'', LARK_APP_SECRET = ''s''\<rparr> (faultless 1 Rejected)
     (received ''e1'' ''m1'' ''c1'' ''u1'' ''p2p'' ''text'' (Json (Some ''hi'')))
     \<lparr>db = empty_store, trace = []\<rparr> =
   (Inl (JsError ''Question or answer is missing or empty.''),
    \<lparr>db = \<lparr>msgs = [], events = [\<lparr>event_id = ''e1'', ev_content = None\<rparr>], next_id = 0\<rparr>,
      trace = [Fetch (Prompt [\<lparr>role = User, content = ''hi''\<rparr>])]\<rparr>)"
  by (simp add: run_defs)

text \<open>
  C7, amended. When \<^verbatim>\<open>query\<close> throws in the conversational path of the primary
  variant, \<^verbatim>\<open>handleReply\<close> catches and logs it, and then throws
  "Question or answer is missing or empty." from \<^verbatim>\<open>saveConversation\<close>; the route does
  not catch it. The event stays recorded, no turn is stored and no reply is sent. When
  \<^verbatim>\<open>queryFlowise\<close> throws in the secondary variant, the route answers 500 with a fixed
  error body. In both, the endpoint is called once.
\<close>

theorem query_failure_handling:
  assumes fails: "isl (fst (query (fetch_answer e) data tr))"
    and conv: "\<not> startsWith ''/'' (trim (trim (replace_first ''@_user_1'' [] txt)))"
    and fresh: "Event_findOne (db w) eid = None" "save_fault1 e = None"
    and chat: "ct = ''p2p'' \<or> ct = ''group''"
    and fails': "isl (fst (queryFlowise f t (Some s) tr'))" "t \<noteq> []" "s \<noteq> []"
  shows "handleReply e (Some txt) sid mid eid w =
           (Inl (JsError ''Question or answer is missing or empty.''),
            w\<lparr>trace := trace w @
               [Fetch (Prompt (buildConversation (db w) sid
                  (trim (replace_first ''@_user_1'' [] txt))))]\<rparr>) \<and>
         webhook cfg e (received eid mid chat sender ct ''text'' (Json (Some txt))) w =
           (Inl (JsError ''Question or answer is missing or empty.''),
            \<lparr>db = (db w)\<lparr>events := events (db w) @ [\<lparr>event_id = eid, ev_content = None\<rparr>]\<rparr>,
              trace = trace w @
               [Fetch (Prompt (buildConversation (db w) (session_of chat sender)
                  (trim (replace_first ''@_user_1'' [] txt))))]\<rparr>) \<and>
         teams_webhook f (Some t) (Some s) tr' =
           (\<lparr>status = 500,
             reply_body = ErrorBody ''Internal Server Error. Please try again later.''\<rparr>,
            tr' @ [Fetch (Flowise t s)])"
proof (intro conjI)
  show "handleReply e (Some txt) sid mid eid w =
           (Inl (JsError ''Question or answer is missing or empty.''),
            w\<lparr>trace := trace w @
               [Fetch (Prompt (buildConversation (db w) sid
                  (trim (replace_first ''@_user_1'' [] txt))))]\<rparr>)"
    by (rule handleReply_query_fails [OF fails conv])
next
  let ?w1 = "w\<lparr>db := (db w)\<lparr>events := events (db w) @ [\<lparr>event_id = eid, ev_content = None\<rparr>]\<rparr>\<rparr>"
  have rec: "record_event (save_fault1 e) (db w) \<lparr>event_id = eid, ev_content = None\<rparr> =
             Inr (Inserted, db ?w1)"
    using fresh by (simp add: record_event_def Event_save_def Event_findOne_None)
  have "webhook cfg e (received eid mid chat sender ct ''text'' (Json (Some txt))) w =
        handleReply e (Some txt) (session_of chat sender) mid eid ?w1"
    using chat fresh(1) rec by (auto simp: webhook_def received_def Let_def)
  also have "\<dots> = (Inl (JsError ''Question or answer is missing or empty.''),
            ?w1\<lparr>trace := trace ?w1 @
               [Fetch (Prompt (buildConversation (db ?w1) (session_of chat sender)
                  (trim (replace_first ''@_user_1'' [] txt))))]\<rparr>)"
    by (rule handleReply_query_fails [OF fails conv])
  finally show "webhook cfg e (received eid mid chat sender ct ''text'' (Json (Some txt))) w =
           (Inl (JsError ''Question or answer is missing or empty.''),
            \<lparr>db = (db w)\<lparr>events := events (db w) @ [\<lparr>event_id = eid, ev_content = None\<rparr>]\<rparr>,
              trace = trace w @
               [Fetch (Prompt (buildConversation (db w) (session_of chat sender)
                  (trim (replace_first ''@_user_1'' [] txt))))]\<rparr>)"
    by (simp add: buildConversation_events)
next
  have tr: "snd (queryFlowise f t (Some s) tr') = tr' @ [Fetch (Flowise t s)]"
    using fails'(3)
    by (simp add: queryFlowise_def Let_def split: fetched.splits option.splits json.splits)
  obtain err where "fst (queryFlowise f t (Some s) tr') = Inl err"
    using fails'(1) by (cases "fst (queryFlowise f t (Some s) tr')") auto
  with tr have "queryFlowise f t (Some s) tr' = (Inl err, tr' @ [Fetch (Flowise t s)])"
    by (metis prod.collapse)
  then show "teams_webhook f (Some t) (Some s) tr' =
           (\<lparr>status = 500,
             reply_body = ErrorBody ''Internal Server Error. Please try again later.''\<rparr>,
            tr' @ [Fetch (Flowise t s)])"
    using fails'(2,3) by (simp add: teams_webhook_def falsy_def)
qed


theorem query_failure_handling_witness:
  "isl (fst (query (fetch_answer (faultless 5 Rejected)) (Prompt []) [])) \<and>
   \<not> startsWith ''/'' (trim (trim (replace_first ''@_user_1'' [] ''@_user_1 hi''))) \<and>
   Event_findOne (db \<lparr>db = empty_store, trace = []\<rparr>) ''e1'' = None \<and>
   save_fault1 (faultless 5 Rejected) = None \<and>
   isl (fst (queryFlowise Rejected ''hi'' (Some ''s1'') [])) \<and>
   webhook \<lparr>LARK_APP_ID = ''cli_a'', LARK_APP_SECRET = ''s''\<rparr> (faultless 5 Rejected)
     (received ''e1'' ''m1'' ''c1'' ''u1'' ''group'' ''text'' (Json (Some ''@_user_1 hi'')))
     \<lparr>db = empty_store, trace = []\<rparr> =
   (Inl (JsError ''Question or answer is missing or empty.''),
    \<lparr>db = \<lparr>msgs = [], events = [\<lparr>event_id = ''e1'', ev_content = None\<rparr>], next_id = 0\<rparr>,
      trace = [Fetch (Prompt [\<lparr>role = User, content = ''hi''\<rparr>])]\<rparr>) \<and>
   teams_webhook Rejected (Some ''hi'') (Some ''s1'') [] =
     (\<lparr>status = 500, reply_body = ErrorBody ''Internal Server Error. Please try again later.''\<rparr>,
      [Fetch (Flowise ''hi'' ''s1'')])"
proof -
  let ?e = "faultless 5 Rejected"
  let ?w = "\<lparr>db = empty_store, trace = []\<rparr>"
  have h1: "isl (fst (query (fetch_answer ?e) (Prompt []) []))"
    by (simp add: query_def faultless_def)
  have h2: "\<not> startsWith ''/'' (trim (trim (replace_first ''@_user_1'' [] ''@_user_1 hi'')))"
    by (simp add: startsWith_def trim_def whitespace_def)
  have h3: "Event_findOne (db ?w) ''e1'' = None"
    by (simp add: Event_findOne_def empty_store_def)
  have h4: "save_fault1 ?e = None" by (simp add: faultless_def)
  have h5: "''group'' = ''p2p'' \<or> ''group'' = ''group''" by simp
  have h6: "isl (fst (queryFlowise Rejected ''hi'' (Some ''s1'') []))"
    by (simp add: queryFlowise_def)
  have h7: "''hi'' \<noteq> []" "''s1'' \<noteq> []" by simp_all
  note t = query_failure_handling [OF h1 h2 h3 h4 h5 h6 h7, of "''u1''" "''m1''" "\<lparr>LARK_APP_ID = ''cli_a'', LARK_APP_SECRET = ''s''\<rparr>" "''c1''" "''u1''"]
  have q: "trim (replace_first ''@_user_1'' [] ''@_user_1 hi'') = ''hi''"
    by (simp add: trim_def whitespace_def)
  have a: "webhook \<lparr>LARK_APP_ID = ''cli_a'', LARK_APP_SECRET = ''s''\<rparr> ?e
     (received ''e1'' ''m1'' ''c1'' ''u1'' ''group'' ''text'' (Json (Some ''@_user_1 hi''))) ?w =
   (Inl (JsError ''Question or answer is missing or empty.''),
    \<lparr>db = \<lparr>msgs = [], events = [\<lparr>event_id = ''e1'', ev_content = None\<rparr>], next_id = 0\<rparr>,
      trace = [Fetch (Prompt [\<lparr>role = User, content = ''hi''\<rparr>])]\<rparr>)"
    using t [THEN conjunct2, THEN conjunct1] unfolding q
    by (simp add: empty_store_def buildConversation_def Msg_find_asc_def)
  note b = t [THEN conjunct2, THEN conjunct2]
  show ?thesis using b by (intro conjI h1 h2 h3 h4 h6 a) simp
qed

section \<open>The content of a ledger entry\<close>

lemma events_discardConversation: "events (discardConversation st sid) = events st"
  by (simp add: discardConversation_def)

lemma events_saveConversation:
  "saveConversation t st sid q a = Inr st' \<Longrightarrow> events st' = events st"
  by (auto simp: saveConversation_def events_discardConversation Msg_save_def
           split: option.splits if_splits)

lemma record_event_known:
  "event_id ev \<in> set (map event_id (events st)) \<Longrightarrow>
   record_event fault st ev \<noteq> Inr (Inserted, st')"
  by (auto simp: record_event_def Event_save_def split: option.splits if_splits)

lemma handleReply_keeps_ledger:
  assumes "eid \<in> set (map event_id (events (db w)))"
  shows "events (db (snd (handleReply e t sid mid eid w))) = events (db w)"
proof (cases t)
  case None
  then show ?thesis by (simp add: handleReply_def)
next
  case (Some u)
  let ?q = "trim (replace_first ''@_user_1'' [] u)"
  show ?thesis
  proof (cases "startsWith ''/'' (trim ?q)")
    case True
    then show ?thesis using Some
      by (simp add: handleReply_def Let_def cmdProcess_def cmdHelp_def cmdClear_def reply_def
            clearConversation_def)
  next
    case False
    let ?queried = "query (fetch_answer e) (Prompt (buildConversation (db w) sid ?q)) (trace w)"
    let ?ans = "case fst ?queried of Inl err \<Rightarrow> None | Inr JNull \<Rightarrow> None | Inr (JObject t) \<Rightarrow> t"
    show ?thesis
    proof (cases "saveConversation (clock e) (db w) sid (Some ?q) ?ans")
      case (Inl err)
      then show ?thesis using Some False by (simp add: handleReply_def Let_def)
    next
      case (Inr st)
      have ev: "events st = events (db w)" using Inr by (rule events_saveConversation)
      then have known: "event_id \<lparr>event_id = eid, ev_content = Some u\<rparr> \<in> set (map event_id (events st))"
        using assms by simp
      show ?thesis
      proof (cases "record_event (save_fault2 e) st \<lparr>event_id = eid, ev_content = Some u\<rparr>")
        case (Inl err)
        then show ?thesis using Some False Inr ev
          by (simp add: handleReply_def Let_def reply_def)
      next
        case r: (Inr p)
        obtain o' st' where p: "p = (o', st')" by (cases p)
        with r record_event_known [OF known] have "o' = Duplicate"
          by (cases o') auto
        with r p show ?thesis using Some False Inr ev
          by (simp add: handleReply_def Let_def reply_def)
      qed
    qed
  qed
qed

lemma record_event_Inserted:
  "record_event fault st ev = Inr (Inserted, st') \<Longrightarrow> st' = st\<lparr>events := events st @ [ev]\<rparr>"
  by (auto simp: record_event_def Event_save_def split: option.splits if_splits)

lemma record_event_Duplicate:
  "record_event fault st ev = Inr (Duplicate, st') \<Longrightarrow> st' = st"
  by (auto simp: record_event_def Event_save_def split: option.splits if_splits)

lemma webhook_never_stores_content:
  "events (db (snd (webhook cfg e req w))) = events (db w) \<or>
   (\<exists>eid. events (db (snd (webhook cfg e req w))) =
            events (db w) @ [\<lparr>event_id = eid, ev_content = None\<rparr>])"
proof (cases "header req")
  case None
  then show ?thesis by (simp add: webhook_def)
next
  case (Some h)
  let ?eid = "hdr_event_id h"
  let ?ev = "\<lparr>event_id = ?eid, ev_content = None\<rparr>"
  let ?w1 = "w\<lparr>db := (db w)\<lparr>events := events (db w) @ [?ev]\<rparr>\<rparr>"
  let ?sid = "session_of (chat_id (message req)) (sender_user_id req)"
  have hr: "events (db (snd (handleReply e t ?sid (message_id (message req)) ?eid ?w1))) =
            events (db w) @ [?ev]" for t
    using handleReply_keeps_ledger [of ?eid ?w1] by simp
  show ?thesis
  proof (cases "record_event (save_fault1 e) (db w) ?ev")
    case (Inl err)
    then show ?thesis using Some
      by (simp add: webhook_def Let_def split: option.splits)
  next
    case (Inr p)
    obtain o' st' where p: "p = (o', st')" by (cases p)
    show ?thesis
    proof (cases o')
      case Duplicate
      then show ?thesis using Some Inr p
        by (simp add: webhook_def Let_def split: option.splits)
    next
      case Inserted
      with Inr p have st': "st' = (db w)\<lparr>events := events (db w) @ [?ev]\<rparr>"
        using record_event_Inserted by blast
      have "events (db (snd (webhook cfg e req w))) = events (db w) \<or>
            events (db (snd (webhook cfg e req w))) = events (db w) @ [?ev]"
        using Some Inr p Inserted hr unfolding st'
        by (simp add: webhook_def Let_def reply_def split: option.splits content_json.splits)
      then show ?thesis by blast
    qed
  qed
qed

text \<open>
  C4. The route stores the event id before it calls \<^verbatim>\<open>handleReply\<close>, and the write at
  the end of \<^verbatim>\<open>handleReply\<close> is an insert of a second document with the same id, which
  the unique index rejects. A fresh text message that runs the whole conversational
  path is answered with code 1, "Duplicate event ID", and the ledger entry of its
  event keeps no content.
\<close>

theorem conversational_path_content_not_stored:
  "webhook \<lparr>LARK_APP_ID = ''cli_a'', LARK_APP_SECRET = ''s''\<rparr> (faultless 1 (answering ''yo''))
     (received ''e1'' ''m1'' ''c1'' ''u1'' ''p2p'' ''text'' (Json (Some ''hi'')))
     \<lparr>db = empty_store, trace = []\<rparr> =
   (Inr (Code 1 (Some ''Duplicate event ID'')),
    \<lparr>db = \<lparr>msgs = [\<lparr>msg_id = 0, sessionId = ''c1u1'', question = ''hi'', answer = ''yo'',
                      msgSize = 4, createdAt = 1\<rparr>],
            events = [\<lparr>event_id = ''e1'', ev_content = None\<rparr>], next_id = 1\<rparr>,
      trace = [Fetch (Prompt [\<lparr>role = User, content = ''hi''\<rparr>]), Reply ''m1'' (Some ''yo'')]\<rparr>)"
  by (simp add: run_defs)

section \<open>Messages that are not text\<close>

text \<open>
  C5. Only the direct-chat branch of the route tests the message type. An image
  message in a group chat is parsed and handed to \<^verbatim>\<open>handleReply\<close>, which throws on the
  missing \<^verbatim>\<open>text\<close>: no "unsupported format" reply is sent. The same message in a
  direct chat gets that reply. A group message of another type whose content has a
  \<^verbatim>\<open>text\<close> reaches the downstream query.
\<close>

theorem group_non_text_not_refused:
  "webhook \<lparr>LARK_APP_ID = ''cli_a'', LARK_APP_SECRET = ''s''\<rparr> (faultless 1 (answering ''yo''))
     (received ''e1'' ''m1'' ''c1'' ''u1'' ''group'' ''image'' (Json None))
     \<lparr>db = empty_store, trace = []\<rparr> =
   (Inl TypeError,
    \<lparr>db = \<lparr>msgs = [], events = [\<lparr>event_id = ''e1'', ev_content = None\<rparr>], next_id = 0\<rparr>,
      trace = []\<rparr>) \<and>
   webhook \<lparr>LARK_APP_ID = ''cli_a'', LARK_APP_SECRET = ''s''\<rparr> (faultless 1 (answering ''yo''))
     (received ''e1'' ''m1'' ''c1'' ''u1'' ''p2p'' ''image'' (Json None))
     \<lparr>db = empty_store, trace = []\<rparr> =
   (Inr (Code 0 None),
    \<lparr>db = \<lparr>msgs = [], events = [\<lparr>event_id = ''e1'', ev_content = None\<rparr>], next_id = 0\<rparr>,
      trace = [Reply ''m1'' (Some ''Not support other format question, only text.'')]\<rparr>) \<and>
   webhook \<lparr>LARK_APP_ID = ''cli_a'', LARK_APP_SECRET = ''s''\<rparr> (faultless 1 (answering ''yo''))
     (received ''e1'' ''m1'' ''c1'' ''u1'' ''group'' ''post'' (Json (Some ''hi'')))
     \<lparr>db = empty_store, trace = []\<rparr> =
   (Inr (Code 1 (Some ''Duplicate event ID'')),
    \<lparr>db = \<lparr>msgs = [\<lparr>msg_id = 0, sessionId = ''c1u1'', question = ''hi'', answer = ''yo'',
                      msgSize = 4, createdAt = 1\<rparr>],
            events = [\<lparr>event_id = ''e1'', ev_content = None\<rparr>], next_id = 1\<rparr>,
      trace = [Fetch (Prompt [\<lparr>role = User, content = ''hi''\<rparr>]), Reply ''m1'' (Some ''yo'')]\<rparr>)"
  by (simp add: run_defs)

end
